theory Spec2Isabelle
  imports Complex_Main "HOL-Library.Word"
begin

section \<open>The recursive ray tracer of RayTracer.cpp\<close>

text \<open>
  The embedding follows \<^verbatim>\<open>src/RayTracer.cpp\<close>. A \<^verbatim>\<open>double\<close> is a real number:
  rounding and overflow are outside the model. Where the source's arithmetic leaves
  the finite reals on values it can really meet (a division by zero, the square root
  of a negative number) the model stops with the fault \<open>NotFinite\<close> instead of
  letting HOL's total \<open>/\<close> and \<open>sqrt\<close> invent a number. An \<^verbatim>\<open>int\<close> is an
  unbounded integer; the only arithmetic on the recursion depth is \<open>depth + 1\<close>
  below the configured limit, which cannot overflow.
\<close>

subsection \<open>Vectors (vecmath.h)\<close>

datatype vec3f = Vec3f real real real

text \<open>Modelled from the spec: \<^verbatim>\<open>vecmath/vecmath.h\<close> is not among the sources; the
  default vector is the zero radiance the tracer returns, \<^verbatim>\<open>prod\<close> is the
  component-wise product of a colour with a weight, and the remaining operators are
  the usual ones of a three-component vector. \<^verbatim>\<open>normalize\<close> and \<^verbatim>\<open>clamp\<close> are taken
  as parameters (see \<open>ext\<close> below).\<close>

definition vzero :: vec3f where
  "vzero = Vec3f 0 0 0"

fun vnth :: "vec3f \<Rightarrow> nat \<Rightarrow> real" where
  "vnth (Vec3f a b c) k = (if k = 0 then a else if k = 1 then b else c)"

fun vadd :: "vec3f \<Rightarrow> vec3f \<Rightarrow> vec3f" where
  "vadd (Vec3f a b c) (Vec3f d e f) = Vec3f (a + d) (b + e) (c + f)"

fun vsub :: "vec3f \<Rightarrow> vec3f \<Rightarrow> vec3f" where
  "vsub (Vec3f a b c) (Vec3f d e f) = Vec3f (a - d) (b - e) (c - f)"

fun vneg :: "vec3f \<Rightarrow> vec3f" where
  "vneg (Vec3f a b c) = Vec3f (- a) (- b) (- c)"

fun vscale :: "real \<Rightarrow> vec3f \<Rightarrow> vec3f" where
  "vscale s (Vec3f a b c) = Vec3f (s * a) (s * b) (s * c)"

fun vdiv :: "vec3f \<Rightarrow> real \<Rightarrow> vec3f" where
  "vdiv (Vec3f a b c) s = Vec3f (a / s) (b / s) (c / s)"

fun prod_vec :: "vec3f \<Rightarrow> vec3f \<Rightarrow> vec3f" where
  "prod_vec (Vec3f a b c) (Vec3f d e f) = Vec3f (a * d) (b * e) (c * f)"

fun dot :: "vec3f \<Rightarrow> vec3f \<Rightarrow> real" where
  "dot (Vec3f a b c) (Vec3f d e f) = a * d + b * e + c * f"

fun iszero_vec :: "vec3f \<Rightarrow> bool" where
  "iszero_vec (Vec3f a b c) \<longleftrightarrow> a = 0 \<and> b = 0 \<and> c = 0"

subsection \<open>Rays, intersections, materials, the scene\<close>

record ray =
  getPosition :: vec3f
  getDirection :: vec3f

text \<open>Modelled from the spec: \<^verbatim>\<open>scene/ray.h\<close> is not among the sources;
  \<^verbatim>\<open>ray::at(t)\<close> is the point at parametric distance \<open>t\<close> along the ray.\<close>

definition ray_at :: "ray \<Rightarrow> real \<Rightarrow> vec3f" where
  "ray_at ry t = vadd (getPosition ry) (vscale t (getDirection ry))"

text \<open>
  Materials are owned by the scene and only referenced; \<^verbatim>\<open>IsLeavingObject\<close> compares
  addresses. A material reference is therefore an address: \<open>SceneMaterial k\<close> is the
  \<open>k\<close>-th material of the scene, \<open>LocalAir\<close> is the local variable \<^verbatim>\<open>air\<close> of
  \<^verbatim>\<open>RayTracer::trace\<close>, whose address no scene object has. An intersection names the
  scene material it hit (\<^verbatim>\<open>isect::getMaterial\<close> returns a reference to it).
\<close>

datatype mref = LocalAir | SceneMaterial nat

record Material =
  kr :: vec3f
  kt :: vec3f
  index :: real

record isect =
  isect_t :: real
  isect_N :: vec3f
  isect_material :: nat

record scene =
  intersect :: "ray \<Rightarrow> isect option"
  rayThrough :: "real \<Rightarrow> real \<Rightarrow> ray"

record VecConeGenerator =
  m_center :: vec3f
  m_x :: real

text \<open>
  The collaborators whose code is not among the sources are parameters: the
  materials the scene owns (by address), what \<^verbatim>\<open>Material air;\<close> constructs,
  \<^verbatim>\<open>Material::shade\<close>, \<^verbatim>\<open>RAY_EPSILON\<close>, \<^verbatim>\<open>vec3f::normalize\<close>, \<^verbatim>\<open>vec3f::clamp\<close>,
  \<^verbatim>\<open>VecConeGenerator::Generate\<close> and the C library's \<^verbatim>\<open>rand\<close>. The last two draw
  from the hidden state of the random number generator, of type \<open>'g\<close>, and shading
  may do so too (soft shadows); the model threads that state through every call.
\<close>

record 'g ext =
  materials :: "nat \<Rightarrow> Material"
  air :: Material
  shade :: "nat \<Rightarrow> scene \<Rightarrow> ray \<Rightarrow> isect \<Rightarrow> 'g \<Rightarrow> vec3f \<times> 'g"
  RAY_EPSILON :: real
  normalize :: "vec3f \<Rightarrow> vec3f"
  clamp :: "vec3f \<Rightarrow> vec3f"
  Generate :: "VecConeGenerator \<Rightarrow> 'g \<Rightarrow> vec3f \<times> 'g"
  rand :: "'g \<Rightarrow> int \<times> 'g"
  RAND_MAX :: int

definition deref :: "'g ext \<Rightarrow> mref \<Rightarrow> Material" where
  "deref ex m = (case m of LocalAir \<Rightarrow> air ex | SceneMaterial k \<Rightarrow> materials ex k)"

definition getMaterial :: "'g ext \<Rightarrow> isect \<Rightarrow> Material" where
  "getMaterial ex i = materials ex (isect_material i)"

subsection \<open>The configuration read through traceUI (ui/TraceUI.h)\<close>

record TraceUI =
  getDepth :: int
  IsEnableReflection :: bool
  GetGlossyReflectionSample :: int
  IsEnableFresnel :: bool
  GetFresnelRatio :: real
  IsEnableRefraction :: bool
  GetIntensityThreshold :: real
  GetSuperSampling :: int

subsection \<open>Trace contexts and results\<close>

record TraceParam =
  param_scene :: "scene option"
  param_r :: ray
  param_thresh :: vec3f
  param_depth :: int
  param_material_stack :: "mref list"

text \<open>
  What the source does without returning a colour: it dereferences a null scene
  pointer; it reads a deque or writes the frame buffer outside its bounds, or
  converts to \<^verbatim>\<open>int\<close> a number outside the range of \<^verbatim>\<open>int\<close>; or its arithmetic leaves
  the finite reals, after which the source goes on with an infinity or a NaN and the
  model does not follow it. The model reports the first of these it meets.
\<close>

datatype fault = NullScene | OutOfRange | NotFinite

text \<open>A call of \<^verbatim>\<open>traceRay\<close>: the context and the generator state go in; \<open>None\<close> is
  "the recursion budget ran out", \<open>Some (Inl f)\<close> a fault, \<open>Some (Inr (c, g))\<close> the
  returned colour and the generator state after the call.\<close>

type_synonym 'g tracer = "TraceParam \<Rightarrow> 'g \<Rightarrow> (fault + vec3f \<times> 'g) option"

definition front :: "'a list \<Rightarrow> fault + 'a" where
  "front xs = (case xs of [] \<Rightarrow> Inl OutOfRange | x # _ \<Rightarrow> Inr x)"

definition at_index :: "'a list \<Rightarrow> nat \<Rightarrow> fault + 'a" where
  "at_index xs k = (if k < length xs then Inr (xs ! k) else Inl OutOfRange)"

definition bind_f :: "fault + 'a \<Rightarrow> ('a \<Rightarrow> fault + 'b) \<Rightarrow> fault + 'b" where
  "bind_f x f = (case x of Inl e \<Rightarrow> Inl e | Inr a \<Rightarrow> f a)"

text \<open>Division and square root of \<^verbatim>\<open>double\<close>s where the source can meet a zero
  divisor or a negative argument: the quotient is then an infinity or a NaN and the
  root a NaN, which the model does not follow.\<close>

definition c_div :: "real \<Rightarrow> real \<Rightarrow> fault + real" where
  "c_div a b = (if b = 0 then Inl NotFinite else Inr (a / b))"

definition c_sqrt :: "real \<Rightarrow> fault + real" where
  "c_sqrt a = (if a < 0 then Inl NotFinite else Inr (sqrt a))"

subsection \<open>IsLeavingObject and GetFresnelCoeff\<close>

definition IsLeavingObject :: "TraceParam \<Rightarrow> isect \<Rightarrow> fault + bool" where
  "IsLeavingObject param i =
     (case front (param_material_stack param) of
        Inl f \<Rightarrow> Inl f
      | Inr m \<Rightarrow> Inr (SceneMaterial (isect_material i) = m))"

definition GetFresnelCoeff :: "'g ext \<Rightarrow> TraceParam \<Rightarrow> isect \<Rightarrow> fault + real" where
  "GetFresnelCoeff ex param i =
     (case IsLeavingObject param i of
        Inl f \<Rightarrow> Inl f
      | Inr leaving \<Rightarrow>
          (case front (param_material_stack param) of
             Inl f \<Rightarrow> Inl f
           | Inr fr \<Rightarrow>
               (let ni = (if leaving then index (getMaterial ex i) else index (deref ex fr));
                    nt = (if leaving then index (deref ex fr) else index (getMaterial ex i))
                in bind_f (c_div (ni - nt) (ni + nt)) (\<lambda>r0.
                     (let r0 = r0 * r0;
                          dot_rn = dot (isect_N i) (vneg (getDirection (param_r param)))
                      in if ni \<le> nt then Inr (r0 + (1 - r0) * (1 - dot_rn) ^ 5)
                         else
                           bind_f (c_div ni nt) (\<lambda>nr.
                             (let root = 1 - nr * nr * (1 - dot_rn * dot_rn)
                              in if root < 0.0 then Inr 1.0
                                 else
                                   bind_f (c_sqrt (1 - nr)) (\<lambda>cos_theta_t.
                                     Inr (r0 + (1 - r0) * (1 - cos_theta_t) ^ 5)))))))))"

subsection \<open>Sequencing calls that may fault or run out of budget\<close>

definition bind_tr :: "(fault + 'a) option \<Rightarrow> ('a \<Rightarrow> (fault + 'b) option) \<Rightarrow> (fault + 'b) option" where
  "bind_tr x f = (case x of None \<Rightarrow> None | Some (Inl e) \<Rightarrow> Some (Inl e) | Some (Inr a) \<Rightarrow> f a)"

subsection \<open>traceReflection\<close>

text \<open>Lines 130-135 and 147-152: the context of the reflected ray, the same in the
  mirror path and in every pass of the glossy loop.\<close>

definition reflection_next_param :: "scene option \<Rightarrow> TraceParam \<Rightarrow> Material \<Rightarrow> ray \<Rightarrow> TraceParam" where
  "reflection_next_param rt_scene param m reflection_r =
     \<lparr>param_scene = rt_scene,
      param_r = reflection_r,
      param_thresh = prod_vec (param_thresh param) (kr m),
      param_depth = param_depth param + 1,
      param_material_stack = param_material_stack param\<rparr>"

text \<open>The loop of lines 142-154, \<open>k\<close> passes left, \<open>intensity\<close> the sum so far.\<close>

fun glossy_loop :: "'g ext \<Rightarrow> 'g tracer \<Rightarrow> (ray \<Rightarrow> TraceParam) \<Rightarrow> VecConeGenerator \<Rightarrow> vec3f
    \<Rightarrow> nat \<Rightarrow> vec3f \<Rightarrow> 'g \<Rightarrow> (fault + vec3f \<times> 'g) option" where
  "glossy_loop ex rec next_param vcg out_point 0 intensity g = Some (Inr (intensity, g))"
| "glossy_loop ex rec next_param vcg out_point (Suc k) intensity g =
     (case Generate ex vcg g of
        (dir, g1) \<Rightarrow>
          bind_tr (rec (next_param \<lparr>getPosition = out_point, getDirection = dir\<rparr>) g1)
            (\<lambda>(c, g2). glossy_loop ex rec next_param vcg out_point k (vadd intensity c) g2))"

definition out_point_of :: "'g ext \<Rightarrow> TraceParam \<Rightarrow> isect \<Rightarrow> vec3f" where
  "out_point_of ex param i =
     vadd (ray_at (param_r param) (isect_t i)) (vscale (RAY_EPSILON ex) (isect_N i))"

definition center_dir_of :: "'g ext \<Rightarrow> TraceParam \<Rightarrow> isect \<Rightarrow> vec3f" where
  "center_dir_of ex param i =
     (let dot_rn = dot (isect_N i) (vneg (getDirection (param_r param)))
      in normalize ex (vsub (vscale (2 * dot_rn) (isect_N i)) (vneg (getDirection (param_r param)))))"

definition traceReflection :: "TraceUI \<Rightarrow> 'g ext \<Rightarrow> scene option \<Rightarrow> 'g tracer
    \<Rightarrow> TraceParam \<Rightarrow> isect \<Rightarrow> 'g \<Rightarrow> (fault + vec3f \<times> 'g) option" where
  "traceReflection ui ex rt_scene rec param i g =
     (let m = getMaterial ex i
      in if iszero_vec (kr m) \<or> param_depth param \<ge> getDepth ui then Some (Inr (vzero, g))
         else
           (let out_point = out_point_of ex param i;
                center_dir = center_dir_of ex param i;
                sample = GetGlossyReflectionSample ui
            in if sample = 0
               then rec (reflection_next_param rt_scene param m
                           \<lparr>getPosition = out_point, getDirection = center_dir\<rparr>) g
               else
                 bind_tr (glossy_loop ex rec (reflection_next_param rt_scene param m)
                            \<lparr>m_center = center_dir, m_x = 0.1\<rparr> out_point (nat sample) vzero g)
                   (\<lambda>(intensity, g'). Some (Inr (vdiv intensity (real_of_int sample), g')))))"

subsection \<open>traceRefraction\<close>

text \<open>Lines 165-183: the copy of the material stack, the two indices, and the stack
  the refracted ray travels with.\<close>

definition refraction_media :: "'g ext \<Rightarrow> TraceParam \<Rightarrow> isect \<Rightarrow> fault + real \<times> real \<times> mref list" where
  "refraction_media ex param i =
     (let m = getMaterial ex i;
          mat_stack = param_material_stack param
      in case front mat_stack of
           Inl f \<Rightarrow> Inl f
         | Inr m2 \<Rightarrow>
             (case IsLeavingObject param i of
                Inl f \<Rightarrow> Inl f
              | Inr leaving \<Rightarrow>
                  if leaving
                  then (case at_index mat_stack 1 of
                          Inl f \<Rightarrow> Inl f
                        | Inr outside \<Rightarrow> Inr (index m, index (deref ex outside), tl mat_stack))
                  else Inr (index (deref ex m2), index m, SceneMaterial (isect_material i) # mat_stack)))"

text \<open>Lines 185-207, given the ratio \<open>nr\<close> and the updated stack: the refracted
  ray's context, or \<open>None\<close> when the discriminant is negative and no ray is made.
  The root is taken of a number that is not negative.\<close>

definition refraction_next_param :: "'g ext \<Rightarrow> scene option \<Rightarrow> TraceParam \<Rightarrow> isect
    \<Rightarrow> real \<Rightarrow> mref list \<Rightarrow> TraceParam option" where
  "refraction_next_param ex rt_scene param i nr mat_stack =
     (let m = getMaterial ex i;
          dot_rn = dot (isect_N i) (vneg (getDirection (param_r param)));
          push_point = vsub (ray_at (param_r param) (isect_t i)) (vscale (RAY_EPSILON ex) (isect_N i));
          root = 1 - nr * nr * (1 - dot_rn * dot_rn)
      in if root < 0.0 then None
         else
           (let coeff = nr * dot_rn - sqrt root;
                refraction_dir = vsub (vscale coeff (isect_N i))
                                   (vscale nr (vneg (getDirection (param_r param))))
            in Some \<lparr>param_scene = rt_scene,
                     param_r = \<lparr>getPosition = push_point, getDirection = refraction_dir\<rparr>,
                     param_thresh = prod_vec (param_thresh param) (kt m),
                     param_depth = param_depth param + 1,
                     param_material_stack = mat_stack\<rparr>))"

definition traceRefraction :: "TraceUI \<Rightarrow> 'g ext \<Rightarrow> scene option \<Rightarrow> 'g tracer
    \<Rightarrow> TraceParam \<Rightarrow> isect \<Rightarrow> 'g \<Rightarrow> (fault + vec3f \<times> 'g) option" where
  "traceRefraction ui ex rt_scene rec param i g =
     (let m = getMaterial ex i
      in if \<not> iszero_vec (kt m) \<and> param_depth param < getDepth ui
         then (case refraction_media ex param i of
                 Inl f \<Rightarrow> Some (Inl f)
               | Inr (ni, nt, mat_stack) \<Rightarrow>
                   (case c_div ni nt of
                      Inl f \<Rightarrow> Some (Inl f)
                    | Inr nr \<Rightarrow>
                        (case refraction_next_param ex rt_scene param i nr mat_stack of
                           None \<Rightarrow> Some (Inr (vzero, g))
                         | Some next_param \<Rightarrow> rec next_param g)))
         else Some (Inr (vzero, g)))"

subsection \<open>traceRay and trace\<close>

text \<open>Lines 85-96: the Fresnel blend of the two branch colours.\<close>

definition fresnel_blend :: "TraceUI \<Rightarrow> 'g ext \<Rightarrow> TraceParam \<Rightarrow> isect \<Rightarrow> vec3f \<times> vec3f
    \<Rightarrow> fault + vec3f \<times> vec3f" where
  "fresnel_blend ui ex param i rr =
     (case rr of
        (reflection, refraction) \<Rightarrow>
          if IsEnableFresnel ui
          then (case front (param_material_stack param) of
                  Inl f \<Rightarrow> Inl f
                | Inr fr \<Rightarrow>
                    if index (deref ex fr) \<noteq> 1 \<or> index (getMaterial ex i) \<noteq> 1
                    then (case GetFresnelCoeff ex param i of
                            Inl f \<Rightarrow> Inl f
                          | Inr fresnel_coeff \<Rightarrow>
                              (let fresnel_ratio = GetFresnelRatio ui
                               in Inr (vadd (vscale (fresnel_ratio * fresnel_coeff) reflection)
                                            (vscale (1 - fresnel_ratio) reflection),
                                       vadd (vscale (fresnel_ratio * (1 - fresnel_coeff)) refraction)
                                            (vscale (1 - fresnel_ratio) refraction))))
                    else Inr (reflection, refraction))
          else Inr (reflection, refraction))"

text \<open>Lines 71-97: an activation of \<^verbatim>\<open>traceRay\<close> once it has its intersection
  \<open>i\<close> (normal already reversed when leaving) in the scene \<open>sc\<close>; \<open>rec\<close> stands for
  the calls of \<^verbatim>\<open>traceRay\<close> that the two branches make.\<close>

definition traceRay_hit :: "TraceUI \<Rightarrow> 'g ext \<Rightarrow> scene option \<Rightarrow> 'g tracer
    \<Rightarrow> TraceParam \<Rightarrow> scene \<Rightarrow> isect \<Rightarrow> 'g \<Rightarrow> (fault + vec3f \<times> 'g) option" where
  "traceRay_hit ui ex rt_scene rec param sc i g =
     (case shade ex (isect_material i) sc (param_r param) i g of
        (shade_c, g0) \<Rightarrow>
          (let intensity = prod_vec shade_c (param_thresh param)
           in bind_tr (if IsEnableReflection ui
                       then traceReflection ui ex rt_scene rec param i g0
                       else Some (Inr (vzero, g0)))
                (\<lambda>(reflection, g1).
                   bind_tr (if IsEnableRefraction ui
                            then traceRefraction ui ex rt_scene rec param i g1
                            else Some (Inr (vzero, g1)))
                     (\<lambda>(refraction, g2).
                        (case fresnel_blend ui ex param i (reflection, refraction) of
                           Inl f \<Rightarrow> Some (Inl f)
                         | Inr (reflection', refraction') \<Rightarrow>
                             Some (Inr (vadd (vadd intensity reflection') refraction', g2)))))))"

text \<open>Lines 45-69 and 99-106, then \<open>traceRay_hit\<close>: one activation of \<^verbatim>\<open>traceRay\<close>.\<close>

definition traceRay_step :: "TraceUI \<Rightarrow> 'g ext \<Rightarrow> scene option \<Rightarrow> 'g tracer \<Rightarrow> 'g tracer" where
  "traceRay_step ui ex rt_scene rec param g =
     (if vnth (param_thresh param) 0 \<le> GetIntensityThreshold ui
         \<and> vnth (param_thresh param) 1 \<le> GetIntensityThreshold ui
         \<and> vnth (param_thresh param) 2 \<le> GetIntensityThreshold ui
      then Some (Inr (vzero, g))
      else
        (case param_scene param of
           None \<Rightarrow> Some (Inl NullScene)
         | Some sc \<Rightarrow>
             (case intersect sc (param_r param) of
                None \<Rightarrow> Some (Inr (Vec3f 0.0 0.0 0.0, g))
              | Some i0 \<Rightarrow>
                  (case IsLeavingObject param i0 of
                     Inl f \<Rightarrow> Some (Inl f)
                   | Inr leaving \<Rightarrow>
                       traceRay_hit ui ex rt_scene rec param sc
                         (if leaving then i0\<lparr>isect_N := vneg (isect_N i0)\<rparr> else i0) g))))"

text \<open>The recursion, with a budget of nested activations.\<close>

fun traceRay :: "nat \<Rightarrow> TraceUI \<Rightarrow> 'g ext \<Rightarrow> scene option \<Rightarrow> 'g tracer" where
  "traceRay 0 ui ex rt_scene = (\<lambda>param g. None)"
| "traceRay (Suc n) ui ex rt_scene = traceRay_step ui ex rt_scene (traceRay n ui ex rt_scene)"

text \<open>The budget that \<open>traceRay_returns\<close> below shows to be enough.\<close>

definition budget :: "TraceUI \<Rightarrow> TraceParam \<Rightarrow> nat" where
  "budget ui param = Suc (nat (getDepth ui - param_depth param))"

text \<open>Lines 30-36: the context \<^verbatim>\<open>trace\<close> starts from.\<close>

definition initial_param :: "scene \<Rightarrow> ray \<Rightarrow> TraceParam" where
  "initial_param sc ry =
     \<lparr>param_scene = Some sc,
      param_r = ry,
      param_thresh = Vec3f 1.0 1.0 1.0,
      param_depth = 0,
      param_material_stack = [LocalAir]\<rparr>"

definition trace :: "TraceUI \<Rightarrow> 'g ext \<Rightarrow> scene option \<Rightarrow> scene option \<Rightarrow> real \<Rightarrow> real \<Rightarrow> 'g
    \<Rightarrow> (fault + vec3f \<times> 'g) option" where
  "trace ui ex rt_scene scene_arg x y g =
     (case scene_arg of
        None \<Rightarrow> Some (Inl NullScene)
      | Some sc \<Rightarrow>
          (let param = initial_param sc (rayThrough sc x y)
           in bind_tr (traceRay (budget ui param) ui ex rt_scene param g)
                (\<lambda>(c, g'). Some (Inr (clamp ex c, g')))))"

subsection \<open>The calls an activation makes\<close>

text \<open>Lines 45-69: the intersection an activation of \<^verbatim>\<open>traceRay\<close> works on, with
  its normal reversed when the ray leaves the object; \<open>None\<close> when the activation
  ends before the two branches.\<close>

definition working_isect :: "TraceUI \<Rightarrow> TraceParam \<Rightarrow> isect option" where
  "working_isect ui param =
     (if vnth (param_thresh param) 0 \<le> GetIntensityThreshold ui
         \<and> vnth (param_thresh param) 1 \<le> GetIntensityThreshold ui
         \<and> vnth (param_thresh param) 2 \<le> GetIntensityThreshold ui
      then None
      else
        (case param_scene param of
           None \<Rightarrow> None
         | Some sc \<Rightarrow>
             (case intersect sc (param_r param) of
                None \<Rightarrow> None
              | Some i0 \<Rightarrow>
                  (case IsLeavingObject param i0 of
                     Inl f \<Rightarrow> None
                   | Inr leaving \<Rightarrow>
                       Some (if leaving then i0\<lparr>isect_N := vneg (isect_N i0)\<rparr> else i0)))))"

text \<open>
  \<open>spawns ui ex rt_scene param next\<close>: the activation of \<^verbatim>\<open>traceRay\<close> on \<open>param\<close>
  calls \<^verbatim>\<open>traceRay\<close> on \<open>next\<close>, through \<^verbatim>\<open>traceReflection\<close> (the mirror ray, or a
  glossy sample in whatever direction the cone generator gives) or through
  \<^verbatim>\<open>traceRefraction\<close>. Lemma \<open>traceRay_step_cong\<close> below shows that an activation
  depends on its recursive calls at these contexts only.
\<close>

inductive spawns :: "TraceUI \<Rightarrow> 'g ext \<Rightarrow> scene option \<Rightarrow> TraceParam \<Rightarrow> TraceParam \<Rightarrow> bool"
  for ui :: TraceUI and ex :: "'g ext" and rt_scene :: "scene option" where
  reflection:
    "working_isect ui param = Some i \<Longrightarrow> IsEnableReflection ui \<Longrightarrow>
     \<not> iszero_vec (kr (getMaterial ex i)) \<Longrightarrow> param_depth param < getDepth ui \<Longrightarrow>
     (GetGlossyReflectionSample ui = 0 \<and> dir = center_dir_of ex param i)
       \<or> 0 < GetGlossyReflectionSample ui \<Longrightarrow>
     spawns ui ex rt_scene param
       (reflection_next_param rt_scene param (getMaterial ex i)
          \<lparr>getPosition = out_point_of ex param i, getDirection = dir\<rparr>)"
| refraction:
    "working_isect ui param = Some i \<Longrightarrow> IsEnableRefraction ui \<Longrightarrow>
     \<not> iszero_vec (kt (getMaterial ex i)) \<Longrightarrow> param_depth param < getDepth ui \<Longrightarrow>
     refraction_media ex param i = Inr (ni, nt, mat_stack) \<Longrightarrow> c_div ni nt = Inr nr \<Longrightarrow>
     refraction_next_param ex rt_scene param i nr mat_stack = Some next_param \<Longrightarrow>
     spawns ui ex rt_scene param next_param"

text \<open>The shape of a material stack that \<^verbatim>\<open>trace\<close> starts and the recursion keeps:
  scene materials above the air sentinel, which is the last entry and the only one
  of its kind.\<close>

fun sentinel_last :: "mref list \<Rightarrow> bool" where
  "sentinel_last [] = False"
| "sentinel_last [m] = (m = LocalAir)"
| "sentinel_last (m # ms) = (m \<noteq> LocalAir \<and> sentinel_last ms)"



subsection \<open>tracePixel and traceLines\<close>

text \<open>The tracer object. The frame buffer is a sequence of bytes; the null buffer
  the constructor leaves has no cell. \<open>scene\<close> is the member pointer, \<open>None\<close> when
  no scene is loaded.\<close>

record RayTracer =
  buffer :: "8 word list"
  buffer_width :: int
  buffer_height :: int
  bufferSize :: int
  scene :: "scene option"
  m_bSceneLoaded :: bool

text \<open>A loop over the index values \<open>ks\<close>, in order, that stops at the first pass
  which does not return.\<close>

fun for_loop :: "'k list \<Rightarrow> ('k \<Rightarrow> 's \<Rightarrow> (fault + 's) option) \<Rightarrow> 's \<Rightarrow> (fault + 's) option" where
  "for_loop [] body s = Some (Inr s)"
| "for_loop (k # ks) body s = bind_tr (body k s) (for_loop ks body)"

text \<open>The conversion \<^verbatim>\<open>(int)d\<close>: towards zero, undefined outside the range of
  \<^verbatim>\<open>int\<close>.\<close>

definition to_int :: "real \<Rightarrow> fault + int" where
  "to_int d =
     (let k = (if 0 \<le> d then \<lfloor>d\<rfloor> else \<lceil>d\<rceil>)
      in if - (2 ^ 31) \<le> k \<and> k < 2 ^ 31 then Inr k else Inl OutOfRange)"

definition store_byte :: "8 word list \<Rightarrow> int \<Rightarrow> int \<Rightarrow> fault + 8 word list" where
  "store_byte buf off v =
     (if 0 \<le> off \<and> off < int (length buf) then Inr (buf[nat off := word_of_int v])
      else Inl OutOfRange)"

text \<open>Lines 391-395.\<close>

definition write_pixel :: "RayTracer \<Rightarrow> int \<Rightarrow> int \<Rightarrow> vec3f \<Rightarrow> fault + RayTracer" where
  "write_pixel rt i j col =
     (let pixel = (i + j * buffer_width rt) * 3
      in bind_f (to_int (255.0 * vnth col 0)) (\<lambda>c0.
         bind_f (store_byte (buffer rt) pixel c0) (\<lambda>b0.
         bind_f (to_int (255.0 * vnth col 1)) (\<lambda>c1.
         bind_f (store_byte b0 (pixel + 1) c1) (\<lambda>b1.
         bind_f (to_int (255.0 * vnth col 2)) (\<lambda>c2.
         bind_f (store_byte b1 (pixel + 2) c2) (\<lambda>b2.
         Inr (rt\<lparr>buffer := b2\<rparr>))))))))"

text \<open>Lines 365-384: the jittered sub-pixel grid. \<^verbatim>\<open>RAND_MAX\<close> is at least 32767.\<close>

definition supersample :: "TraceUI \<Rightarrow> 'g ext \<Rightarrow> RayTracer \<Rightarrow> real \<Rightarrow> real \<Rightarrow> 'g
    \<Rightarrow> (fault + vec3f \<times> 'g) option" where
  "supersample ui ex rt x y g =
     (let sample = GetSuperSampling ui;
          pixel_w = 1.0 / real_of_int (buffer_width rt);
          pixel_h = 1.0 / real_of_int (buffer_height rt);
          sub_pixel_w = pixel_w / real_of_int sample;
          sub_pixel_h = pixel_h / real_of_int sample
      in bind_tr
           (for_loop [0..<nat sample]
              (\<lambda>i. for_loop [0..<nat sample]
                 (\<lambda>j (col, g0).
                    (let base_y = y + (real i / real_of_int sample - 0.5) * pixel_h;
                         base_x = x + (real j / real_of_int sample - 0.5) * pixel_w
                     in case rand ex g0 of
                          (r1, g1) \<Rightarrow>
                            (let jitter_y = (real_of_int r1 / real_of_int (RAND_MAX ex) - 0.5)
                                              * sub_pixel_h + base_y
                             in case rand ex g1 of
                                  (r2, g2) \<Rightarrow>
                                    (let jitter_x = (real_of_int r2 / real_of_int (RAND_MAX ex) - 0.5)
                                                      * sub_pixel_w + base_x
                                     in bind_tr (trace ui ex (scene rt) (scene rt) jitter_x jitter_y g2)
                                          (\<lambda>(c, g3). Some (Inr (vadd col c, g3))))))))
              (vzero, g))
           (\<lambda>(col, g'). Some (Inr (vdiv col (real_of_int (sample * sample)), g'))))"

definition tracePixel :: "TraceUI \<Rightarrow> 'g ext \<Rightarrow> int \<Rightarrow> int \<Rightarrow> RayTracer \<times> 'g
    \<Rightarrow> (fault + RayTracer \<times> 'g) option" where
  "tracePixel ui ex i j s =
     (case s of
        (rt, g) \<Rightarrow>
          if scene rt = None then Some (Inr (rt, g))
          else if buffer_width rt = 0 \<or> buffer_height rt = 0 then Some (Inl NotFinite)
          else
            (let x = real_of_int i / real_of_int (buffer_width rt);
                 y = real_of_int j / real_of_int (buffer_height rt)
             in bind_tr (if GetSuperSampling ui > 0
                         then supersample ui ex rt x y g
                         else trace ui ex (scene rt) (scene rt) x y g)
                  (\<lambda>(col, g'). case write_pixel rt i j col of
                                  Inl f \<Rightarrow> Some (Inl f)
                                | Inr rt' \<Rightarrow> Some (Inr (rt', g')))))"

definition traceLines :: "TraceUI \<Rightarrow> 'g ext \<Rightarrow> int \<Rightarrow> int \<Rightarrow> RayTracer \<times> 'g
    \<Rightarrow> (fault + RayTracer \<times> 'g) option" where
  "traceLines ui ex start stop s =
     (case s of
        (rt, g) \<Rightarrow>
          if scene rt = None then Some (Inr (rt, g))
          else
            (let stop' = (if stop > buffer_height rt then buffer_height rt else stop)
             in for_loop [start..stop' - 1]
                  (\<lambda>j. for_loop [0..buffer_width rt - 1] (\<lambda>i. tracePixel ui ex i j))
                  (rt, g)))"

subsection \<open>A concrete configuration and scene\<close>

text \<open>The defaults of the \<^verbatim>\<open>TraceUI\<close> constructor, with the depth limit set to 1.\<close>

definition default_ui :: TraceUI where
  "default_ui =
     \<lparr>getDepth = 1, IsEnableReflection = True, GetGlossyReflectionSample = 0,
      IsEnableFresnel = False, GetFresnelRatio = 1.0, IsEnableRefraction = True,
      GetIntensityThreshold = 0.01, GetSuperSampling = 0\<rparr>"

definition mirror :: Material where
  "mirror = \<lparr>kr = Vec3f 1 1 1, kt = Vec3f 0 0 0, index = 1\<rparr>"

definition glass :: Material where
  "glass = \<lparr>kr = Vec3f 0 0 0, kt = Vec3f 1 1 1, index = 1.5\<rparr>"

text \<open>Collaborators for the examples: material 0 is the mirror, every other one
  is glass; shading is a constant grey; the cone generator returns its centre and the
  generator state counts the draws.\<close>

definition example_ext :: "nat ext" where
  "example_ext =
     \<lparr>materials = (\<lambda>k. if k = 0 then mirror else glass),
      air = \<lparr>kr = Vec3f 0 0 0, kt = Vec3f 0 0 0, index = 1\<rparr>,
      shade = (\<lambda>k sc ry i g. (Vec3f 0.5 0.5 0.5, g)),
      RAY_EPSILON = 0.00001,
      normalize = (\<lambda>v. vdiv v (sqrt (dot v v))),
      clamp = (\<lambda>v. Vec3f (max 0 (min 1 (vnth v 0))) (max 0 (min 1 (vnth v 1))) (max 0 (min 1 (vnth v 2)))),
      Generate = (\<lambda>vcg g. (m_center vcg, Suc g)),
      rand = (\<lambda>g. (0, Suc g)),
      RAND_MAX = 32767\<rparr>"

text \<open>A scene in which every ray hits material \<open>k\<close> again, head-on: the inside of
  a sphere.\<close>

definition sphere_scene :: "nat \<Rightarrow> scene" where
  "sphere_scene k =
     \<lparr>intersect = (\<lambda>ry. Some \<lparr>isect_t = 1, isect_N = vneg (getDirection ry), isect_material = k\<rparr>),
      rayThrough = (\<lambda>x y. \<lparr>getPosition = Vec3f 0 0 0, getDirection = Vec3f 0 0 (- 1)\<rparr>)\<rparr>"

definition head_on :: ray where
  "head_on = \<lparr>getPosition = Vec3f 0 0 0, getDirection = Vec3f 0 0 (- 1)\<rparr>"

definition hit_at :: "nat \<Rightarrow> isect" where
  "hit_at k = \<lparr>isect_t = 1, isect_N = Vec3f 0 0 1, isect_material = k\<rparr>"

text \<open>A hit of material 1 whose normal is inclined against the axis.\<close>

definition slanted_hit :: isect where
  "slanted_hit = \<lparr>isect_t = 1, isect_N = Vec3f 0.6 0 0.8, isect_material = 1\<rparr>"

text \<open>The context \<^verbatim>\<open>trace\<close> starts from inside the mirrored sphere, and the context
  of the mirror ray that its reflection branch traces.\<close>

definition mirror_start :: TraceParam where
  "mirror_start = initial_param (sphere_scene 0) head_on"

definition mirror_next :: TraceParam where
  "mirror_next =
     reflection_next_param (Some (sphere_scene 0)) mirror_start (getMaterial example_ext (hit_at 0))
       \<lparr>getPosition = out_point_of example_ext mirror_start (hit_at 0),
        getDirection = center_dir_of example_ext mirror_start (hit_at 0)\<rparr>"

text \<open>The context \<^verbatim>\<open>trace\<close> starts from in front of the glass sphere, and the
  context of the refracted ray that enters it head-on.\<close>

definition glass_start :: TraceParam where
  "glass_start = initial_param (sphere_scene 1) head_on"

definition glass_inside :: TraceParam where
  "glass_inside =
     \<lparr>param_scene = Some (sphere_scene 1),
      param_r = \<lparr>getPosition = Vec3f 0 0 (- 1.00001), getDirection = Vec3f 0 0 (- 1)\<rparr>,
      param_thresh = Vec3f 1 1 1,
      param_depth = 1,
      param_material_stack = [SceneMaterial 1, LocalAir]\<rparr>"

text \<open>A ray inside the glass that meets the surface at a glancing angle: the
  cosine against the normal \<open>(0, 0, 1)\<close> is 0.6.\<close>

definition glancing_inside :: TraceParam where
  "glancing_inside =
     \<lparr>param_scene = Some (sphere_scene 1),
      param_r = \<lparr>getPosition = Vec3f 0 0 0, getDirection = Vec3f 0.8 0 (- 0.6)\<rparr>,
      param_thresh = Vec3f 1 1 1,
      param_depth = 1,
      param_material_stack = [SceneMaterial 1, LocalAir]\<rparr>"






text \<open>The default configuration with the Fresnel blend switched on.\<close>

definition fresnel_ui :: TraceUI where
  "fresnel_ui = default_ui\<lparr>IsEnableFresnel := True\<rparr>"


text \<open>A context whose weight is at or below the default threshold on every channel,
  with no scene behind it.\<close>

definition dim_param :: TraceParam where
  "dim_param =
     \<lparr>param_scene = None, param_r = head_on, param_thresh = Vec3f 0.01 0 0.005,
      param_depth = 0, param_material_stack = [LocalAir]\<rparr>"

text \<open>Lines 261-268: the tracer as its constructor leaves it (\<^verbatim>\<open>bufferSize\<close> is not
  initialised there; any value will do).\<close>

definition new_RayTracer :: RayTracer where
  "new_RayTracer =
     \<lparr>buffer = [], buffer_width = 256, buffer_height = 256, bufferSize = 0,
      scene = None, m_bSceneLoaded = False\<rparr>"

section \<open>Properties\<close>

subsection \<open>Unfolding the tracer on concrete inputs\<close>

lemmas tracer_defs =
  traceRay_step_def traceRay_hit_def traceReflection_def traceRefraction_def fresnel_blend_def
  GetFresnelCoeff_def IsLeavingObject_def front_def at_index_def bind_tr_def bind_f_def c_div_def
  c_sqrt_def getMaterial_def deref_def reflection_next_param_def refraction_next_param_def
  refraction_media_def out_point_of_def center_dir_of_def ray_at_def vzero_def working_isect_def

lemmas example_defs =
  default_ui_def fresnel_ui_def example_ext_def sphere_scene_def head_on_def hit_at_def
  mirror_def glass_def initial_param_def mirror_start_def glass_start_def glass_inside_def

subsection \<open>An activation depends on its recursive calls at the spawned contexts only\<close>

lemma bind_tr_simps:
  "bind_tr None f = None"
  "bind_tr (Some (Inl e)) f = Some (Inl e)"
  "bind_tr (Some (Inr a)) f = f a"
  by (simp_all add: bind_tr_def)


lemma glossy_loop_cong:
  assumes "\<And>dir g. rec1 (next_param \<lparr>getPosition = out_point, getDirection = dir\<rparr>) g
                  = rec2 (next_param \<lparr>getPosition = out_point, getDirection = dir\<rparr>) g"
  shows "glossy_loop ex rec1 next_param vcg out_point k intensity g
       = glossy_loop ex rec2 next_param vcg out_point k intensity g"
proof (induction k arbitrary: intensity g)
  case 0
  show ?case by simp
next
  case (Suc k)
  show ?case
    by (simp add: assms Suc.IH case_prod_unfold)
qed


lemma traceReflection_cong:
  assumes "\<And>dir g. \<not> iszero_vec (kr (getMaterial ex i)) \<Longrightarrow> param_depth param < getDepth ui \<Longrightarrow>
             (GetGlossyReflectionSample ui = 0 \<and> dir = center_dir_of ex param i)
               \<or> 0 < GetGlossyReflectionSample ui \<Longrightarrow>
             rec1 (reflection_next_param rt_scene param (getMaterial ex i)
                     \<lparr>getPosition = out_point_of ex param i, getDirection = dir\<rparr>) g
           = rec2 (reflection_next_param rt_scene param (getMaterial ex i)
                     \<lparr>getPosition = out_point_of ex param i, getDirection = dir\<rparr>) g"
  shows "traceReflection ui ex rt_scene rec1 param i g = traceReflection ui ex rt_scene rec2 param i g"
proof (cases "iszero_vec (kr (getMaterial ex i)) \<or> getDepth ui \<le> param_depth param")
  case True
  then show ?thesis by (auto simp: traceReflection_def)
next
  case False
  note live = this
  show ?thesis
  proof (cases "GetGlossyReflectionSample ui = 0")
    case True
    with live assms [of "center_dir_of ex param i" g] show ?thesis
      by (simp add: traceReflection_def)
  next
    case nz: False
    show ?thesis
    proof (cases "0 < GetGlossyReflectionSample ui")
      case True
      with live have "glossy_loop ex rec1 (reflection_next_param rt_scene param (getMaterial ex i)) vcg
              (out_point_of ex param i) k acc g
            = glossy_loop ex rec2 (reflection_next_param rt_scene param (getMaterial ex i)) vcg
              (out_point_of ex param i) k acc g" for vcg k acc
        by (intro glossy_loop_cong assms) auto
      with live nz show ?thesis
        by (simp add: traceReflection_def)
    next
      case False
      then have "nat (GetGlossyReflectionSample ui) = 0" by simp
      with live nz show ?thesis
        by (simp add: traceReflection_def)
    qed
  qed
qed

lemma traceRefraction_cong:
  assumes "\<And>ni nt mat_stack nr next_param.
             \<not> iszero_vec (kt (getMaterial ex i)) \<Longrightarrow> param_depth param < getDepth ui \<Longrightarrow>
             refraction_media ex param i = Inr (ni, nt, mat_stack) \<Longrightarrow> c_div ni nt = Inr nr \<Longrightarrow>
             refraction_next_param ex rt_scene param i nr mat_stack = Some next_param \<Longrightarrow>
             rec1 next_param g = rec2 next_param g"
  shows "traceRefraction ui ex rt_scene rec1 param i g = traceRefraction ui ex rt_scene rec2 param i g"
  using assms
  by (auto simp: traceRefraction_def split: sum.splits option.splits prod.splits)


lemma traceRay_hit_cong:
  assumes refl: "\<And>dir g. \<not> iszero_vec (kr (getMaterial ex i)) \<Longrightarrow> param_depth param < getDepth ui \<Longrightarrow>
             IsEnableReflection ui \<Longrightarrow>
             (GetGlossyReflectionSample ui = 0 \<and> dir = center_dir_of ex param i)
               \<or> 0 < GetGlossyReflectionSample ui \<Longrightarrow>
             rec1 (reflection_next_param rt_scene param (getMaterial ex i)
                     \<lparr>getPosition = out_point_of ex param i, getDirection = dir\<rparr>) g
           = rec2 (reflection_next_param rt_scene param (getMaterial ex i)
                     \<lparr>getPosition = out_point_of ex param i, getDirection = dir\<rparr>) g"
      and refr: "\<And>ni nt mat_stack nr next_param g.
             \<not> iszero_vec (kt (getMaterial ex i)) \<Longrightarrow> param_depth param < getDepth ui \<Longrightarrow>
             IsEnableRefraction ui \<Longrightarrow>
             refraction_media ex param i = Inr (ni, nt, mat_stack) \<Longrightarrow> c_div ni nt = Inr nr \<Longrightarrow>
             refraction_next_param ex rt_scene param i nr mat_stack = Some next_param \<Longrightarrow>
             rec1 next_param g = rec2 next_param g"
  shows "traceRay_hit ui ex rt_scene rec1 param sc i g = traceRay_hit ui ex rt_scene rec2 param sc i g"
proof -
  obtain shade_c g0 where sh: "shade ex (isect_material i) sc (param_r param) i g = (shade_c, g0)"
    by (cases "shade ex (isect_material i) sc (param_r param) i g")
  have a: "(if IsEnableReflection ui then traceReflection ui ex rt_scene rec1 param i g0
            else Some (Inr (vzero, g0)))
         = (if IsEnableReflection ui then traceReflection ui ex rt_scene rec2 param i g0
            else Some (Inr (vzero, g0)))"
    using refl by (auto intro!: traceReflection_cong)
  have b: "(if IsEnableRefraction ui then traceRefraction ui ex rt_scene rec1 param i g1
            else Some (Inr (vzero, g1)))
         = (if IsEnableRefraction ui then traceRefraction ui ex rt_scene rec2 param i g1
            else Some (Inr (vzero, g1)))" for g1
    using refr by (auto intro!: traceRefraction_cong)
  show ?thesis
    unfolding traceRay_hit_def sh prod.case Let_def a b ..
qed

lemma traceRay_step_working:
  "traceRay_step ui ex rt_scene rec param g =
     (case working_isect ui param of
        None \<Rightarrow> traceRay_step ui ex rt_scene (\<lambda>p g. None) param g
      | Some i \<Rightarrow> traceRay_hit ui ex rt_scene rec param (the (param_scene param)) i g)"
  by (simp add: traceRay_step_def working_isect_def split: option.splits sum.splits)

lemma traceRay_step_cong:
  assumes "\<And>next_param g. spawns ui ex rt_scene param next_param \<Longrightarrow> rec1 next_param g = rec2 next_param g"
  shows "traceRay_step ui ex rt_scene rec1 param g = traceRay_step ui ex rt_scene rec2 param g"
proof (cases "working_isect ui param")
  case None
  then show ?thesis by (simp add: traceRay_step_working [of _ _ _ rec1] traceRay_step_working [of _ _ _ rec2])
next
  case (Some i)
  have "traceRay_hit ui ex rt_scene rec1 param sc i g = traceRay_hit ui ex rt_scene rec2 param sc i g" for sc
  proof (rule traceRay_hit_cong)
    fix dir g
    assume "\<not> iszero_vec (kr (getMaterial ex i))" "param_depth param < getDepth ui" "IsEnableReflection ui"
      "(GetGlossyReflectionSample ui = 0 \<and> dir = center_dir_of ex param i)
               \<or> 0 < GetGlossyReflectionSample ui"
    then show "rec1 (reflection_next_param rt_scene param (getMaterial ex i)
                     \<lparr>getPosition = out_point_of ex param i, getDirection = dir\<rparr>) g
           = rec2 (reflection_next_param rt_scene param (getMaterial ex i)
                     \<lparr>getPosition = out_point_of ex param i, getDirection = dir\<rparr>) g"
      using Some by (intro assms spawns.reflection)
  next
    fix ni nt mat_stack nr next_param g
    assume "\<not> iszero_vec (kt (getMaterial ex i))" "param_depth param < getDepth ui" "IsEnableRefraction ui"
      "refraction_media ex param i = Inr (ni, nt, mat_stack)" "c_div ni nt = Inr nr"
      "refraction_next_param ex rt_scene param i nr mat_stack = Some next_param"
    then show "rec1 next_param g = rec2 next_param g"
      using Some by (intro assms spawns.refraction)
  qed
  with Some show ?thesis
    by (simp add: traceRay_step_working [of _ _ _ rec1] traceRay_step_working [of _ _ _ rec2])
qed

subsection \<open>The intensity cut-off\<close>

text \<open>
  C3. When every channel of the accumulated weight is at or below the configured
  intensity threshold, an activation of \<^verbatim>\<open>traceRay\<close> returns the zero colour and
  leaves the generator state alone. It does so for every context, so also for one
  whose scene pointer is null, where any query of the scene would be the fault
  \<open>NullScene\<close>; for every stand-in \<open>rec\<close> of the recursive calls; and with a budget
  of one activation: the scene is not consulted and nothing is traced.
\<close>

theorem traceRay_threshold_cutoff:
  assumes "vnth (param_thresh param) 0 \<le> GetIntensityThreshold ui"
      and "vnth (param_thresh param) 1 \<le> GetIntensityThreshold ui"
      and "vnth (param_thresh param) 2 \<le> GetIntensityThreshold ui"
  shows "traceRay_step ui ex rt_scene rec param g = Some (Inr (vzero, g))
       \<and> traceRay (Suc n) ui ex rt_scene param g = Some (Inr (vzero, g))"
  using assms by (simp add: traceRay_step_def)

theorem traceRay_threshold_cutoff_witness:
  "vnth (param_thresh dim_param) 0 \<le> GetIntensityThreshold default_ui
   \<and> vnth (param_thresh dim_param) 1 \<le> GetIntensityThreshold default_ui
   \<and> vnth (param_thresh dim_param) 2 \<le> GetIntensityThreshold default_ui
   \<and> param_scene dim_param = None
   \<and> traceRay (Suc 0) default_ui example_ext None dim_param (0::nat) = Some (Inr (vzero, 0))"
proof -
  have h0: "vnth (param_thresh dim_param) 0 \<le> GetIntensityThreshold default_ui"
    by (simp add: dim_param_def default_ui_def)
  have h1: "vnth (param_thresh dim_param) 1 \<le> GetIntensityThreshold default_ui"
    by (simp add: dim_param_def default_ui_def)
  have h2: "vnth (param_thresh dim_param) 2 \<le> GetIntensityThreshold default_ui"
    by (simp add: dim_param_def default_ui_def)
  have "param_scene dim_param = None"
    by (simp add: dim_param_def)
  with h0 h1 h2 traceRay_threshold_cutoff [OF h0 h1 h2, of example_ext None "\<lambda>p g. None" 0 0]
  show ?thesis by simp
qed

subsection \<open>No scene loaded\<close>

text \<open>
  C9. When the tracer's scene pointer is null, \<^verbatim>\<open>traceLines\<close> and \<^verbatim>\<open>tracePixel\<close>
  return at once for all arguments: the tracer (its frame buffer included) and the
  generator state are unchanged, and the result is a return, not the fault of a
  null dereference.
\<close>

theorem no_scene_no_op:
  assumes "scene rt = None"
  shows "traceLines ui ex start stop (rt, g) = Some (Inr (rt, g))
       \<and> tracePixel ui ex i j (rt, g) = Some (Inr (rt, g))"
  using assms by (simp add: traceLines_def tracePixel_def)

theorem no_scene_no_op_witness:
  "scene new_RayTracer = None
   \<and> traceLines default_ui example_ext 0 10000000 (new_RayTracer, 0) = Some (Inr (new_RayTracer, 0))
   \<and> tracePixel default_ui example_ext 3 7 (new_RayTracer, 0) = Some (Inr (new_RayTracer, 0))"
proof -
  have h: "scene new_RayTracer = None"
    by (simp add: new_RayTracer_def)
  from h no_scene_no_op [OF h, of default_ui example_ext 0 10000000 0 3 7]
  show ?thesis by simp
qed

subsection \<open>Recursion depth\<close>

lemma spawns_depth:
  assumes "spawns ui ex rt_scene param next_param"
  shows "param_depth next_param = param_depth param + 1 \<and> param_depth next_param \<le> getDepth ui"
  using assms
proof cases
  case (reflection i dir)
  then show ?thesis by (simp add: reflection_next_param_def)
next
  case (refraction i ni nt mat_stack nr)
  then show ?thesis
    by (auto simp: refraction_next_param_def Let_def split: if_splits)
qed

lemma path_depth:
  assumes "(spawns ui ex rt_scene)\<^sup>*\<^sup>* param q"
  shows "param_depth param \<le> param_depth q
       \<and> param_depth q \<le> max (param_depth param) (getDepth ui)"
  using assms
proof (induction rule: rtranclp_induct)
  case base
  show ?case by simp
next
  case (step y z)
  from spawns_depth [OF step.hyps(2)] step.IH show ?case by simp
qed

lemma branches_stop_at_limit:
  assumes "getDepth ui \<le> param_depth param"
  shows "traceReflection ui ex rt_scene rec param i g = Some (Inr (vzero, g))
       \<and> traceRefraction ui ex rt_scene rec param i g = Some (Inr (vzero, g))"
  using assms by (simp add: traceReflection_def traceRefraction_def)

text \<open>
  C1. Every call of \<^verbatim>\<open>traceRay\<close> that \<^verbatim>\<open>traceReflection\<close> or \<^verbatim>\<open>traceRefraction\<close>
  makes for a context carries that context's depth plus one, which is at most the
  configured maximum; an activation depends on its recursive calls at these
  contexts only; at a depth that has reached the maximum both branches return the
  zero colour whatever the recursive call would do; so along every chain of calls
  the depth does not decrease and stays at or below the greater of the starting
  depth and the maximum (the starting depth of \<^verbatim>\<open>trace\<close> is 0).
\<close>

theorem branch_depth:
  "(spawns ui ex rt_scene param next_param \<longrightarrow>
      param_depth next_param = param_depth param + 1 \<and> param_depth next_param \<le> getDepth ui)
   \<and> ((\<forall>np g'. spawns ui ex rt_scene param np \<longrightarrow> rec1 np g' = rec2 np g') \<longrightarrow>
        traceRay_step ui ex rt_scene rec1 param g = traceRay_step ui ex rt_scene rec2 param g)
   \<and> (getDepth ui \<le> param_depth param \<longrightarrow>
        traceReflection ui ex rt_scene rec param i g = Some (Inr (vzero, g))
        \<and> traceRefraction ui ex rt_scene rec param i g = Some (Inr (vzero, g)))
   \<and> ((spawns ui ex rt_scene)\<^sup>*\<^sup>* param q \<longrightarrow>
        param_depth param \<le> param_depth q
        \<and> param_depth q \<le> max (param_depth param) (getDepth ui))"
  using spawns_depth [of ui ex rt_scene param next_param]
    traceRay_step_cong [of ui ex rt_scene param rec1 rec2 g]
    branches_stop_at_limit [of ui param ex rt_scene rec i g]
    path_depth [of ui ex rt_scene param q]
  by blast

lemma mirror_start_working:
  "working_isect default_ui mirror_start = Some (hit_at 0)"
  by (simp add: working_isect_def default_ui_def initial_param_def sphere_scene_def head_on_def
      hit_at_def IsLeavingObject_def front_def mirror_start_def)

lemma mirror_start_spawns:
  "spawns default_ui example_ext (Some (sphere_scene 0)) mirror_start mirror_next"
  unfolding mirror_next_def
  by (rule spawns.reflection [OF mirror_start_working])
     (simp_all add: default_ui_def example_ext_def getMaterial_def hit_at_def mirror_def
        initial_param_def mirror_start_def)

theorem branch_depth_witness:
  "spawns default_ui example_ext (Some (sphere_scene 0)) mirror_start mirror_next
   \<and> param_depth mirror_start = 0
   \<and> param_depth mirror_next = 1
   \<and> getDepth default_ui = 1
   \<and> traceRay_step default_ui example_ext (Some (sphere_scene 0))
        (traceRay 1 default_ui example_ext (Some (sphere_scene 0))) mirror_start (0::nat)
     = traceRay_step default_ui example_ext (Some (sphere_scene 0))
        (\<lambda>p g. if param_depth p = 1 then traceRay 1 default_ui example_ext (Some (sphere_scene 0)) p g
                else None) mirror_start 0
   \<and> traceReflection default_ui example_ext (Some (sphere_scene 0)) (\<lambda>p g. None) mirror_next (hit_at 0) 0
     = Some (Inr (vzero, 0))
   \<and> traceRefraction default_ui example_ext (Some (sphere_scene 0)) (\<lambda>p g. None) mirror_next (hit_at 0) 0
     = Some (Inr (vzero, 0))
   \<and> (spawns default_ui example_ext (Some (sphere_scene 0)))\<^sup>*\<^sup>* mirror_start mirror_next
   \<and> param_depth mirror_next \<le> max (param_depth mirror_start) (getDepth default_ui)"
proof -
  let ?rec1 = "traceRay 1 default_ui example_ext (Some (sphere_scene 0))"
  let ?rec2 = "\<lambda>p g. if param_depth p = 1 then traceRay 1 default_ui example_ext (Some (sphere_scene 0)) p g
                else None"
  have s: "spawns default_ui example_ext (Some (sphere_scene 0)) mirror_start mirror_next"
    by (rule mirror_start_spawns)
  then have p: "(spawns default_ui example_ext (Some (sphere_scene 0)))\<^sup>*\<^sup>* mirror_start mirror_next"
    by (rule r_into_rtranclp)
  have d0: "param_depth mirror_start = 0"
    by (simp add: mirror_start_def initial_param_def)
  have m: "getDepth default_ui = 1"
    by (simp add: default_ui_def)
  have agree: "\<forall>np g'. spawns default_ui example_ext (Some (sphere_scene 0)) mirror_start np
                 \<longrightarrow> ?rec1 np g' = ?rec2 np g'"
    using branch_depth [of default_ui example_ext "Some (sphere_scene 0)" mirror_start] d0
    by simp
  note first = branch_depth [of default_ui example_ext "Some (sphere_scene 0)" mirror_start mirror_next
      ?rec1 ?rec2 0 "\<lambda>p g. None" "hit_at 0" mirror_next]
  from first s d0 have d1: "param_depth mirror_next = 1" by simp
  note second = branch_depth [of default_ui example_ext "Some (sphere_scene 0)" mirror_next mirror_next
      ?rec1 ?rec1 0 "\<lambda>p g. None" "hit_at 0" mirror_next]
  from first agree have c: "traceRay_step default_ui example_ext (Some (sphere_scene 0)) ?rec1 mirror_start 0
      = traceRay_step default_ui example_ext (Some (sphere_scene 0)) ?rec2 mirror_start 0"
    by blast
  from second d1 m have z: "traceReflection default_ui example_ext (Some (sphere_scene 0)) (\<lambda>p g. None) mirror_next (hit_at 0) 0
     = Some (Inr (vzero, 0))
   \<and> traceRefraction default_ui example_ext (Some (sphere_scene 0)) (\<lambda>p g. None) mirror_next (hit_at 0) 0
     = Some (Inr (vzero, 0))"
    by simp
  from first p have b: "param_depth mirror_next \<le> max (param_depth mirror_start) (getDepth default_ui)"
    by blast
  from s p d0 d1 m c z b show ?thesis by blast
qed

subsection \<open>Termination\<close>





























subsection \<open>The material stack\<close>

lemma sentinel_last_Cons:
  "sentinel_last (m # ms) \<longleftrightarrow> (if ms = [] then m = LocalAir else m \<noteq> LocalAir \<and> sentinel_last ms)"
  by (cases ms) simp_all

lemma sentinel_last_shape:
  "sentinel_last ms \<Longrightarrow> ms \<noteq> [] \<and> last ms = LocalAir"
  by (induction ms rule: sentinel_last.induct) auto

lemma leaving_pops_hit_material:
  assumes "refraction_media ex param i = Inr (ni, nt, mat_stack)"
      and "IsLeavingObject param i = Inr True"
  shows "param_material_stack param = SceneMaterial (isect_material i) # mat_stack"
  using assms
  by (cases "param_material_stack param")
     (auto simp: refraction_media_def IsLeavingObject_def front_def Let_def
        split: sum.splits if_splits)

lemma entering_pushes_hit_material:
  assumes "refraction_media ex param i = Inr (ni, nt, mat_stack)"
      and "IsLeavingObject param i = Inr False"
  shows "mat_stack = SceneMaterial (isect_material i) # param_material_stack param
       \<and> param_material_stack param \<noteq> []"
  using assms
  by (cases "param_material_stack param")
     (auto simp: refraction_media_def IsLeavingObject_def front_def Let_def
        split: sum.splits if_splits)

lemma refraction_media_sentinel:
  assumes "sentinel_last (param_material_stack param)"
      and "refraction_media ex param i = Inr (ni, nt, mat_stack)"
  shows "sentinel_last mat_stack"
proof -
  from assms(1) obtain m ms where st: "param_material_stack param = m # ms"
    by (cases "param_material_stack param") auto
  show ?thesis
  proof (cases "SceneMaterial (isect_material i) = m")
    case True
    with st have "IsLeavingObject param i = Inr True"
      by (simp add: IsLeavingObject_def front_def)
    from leaving_pops_hit_material [OF assms(2) this] st have "ms = mat_stack" by simp
    with assms(1) st True show ?thesis
      by (auto simp: sentinel_last_Cons split: if_splits)
  next
    case False
    with st have "IsLeavingObject param i = Inr False"
      by (simp add: IsLeavingObject_def front_def)
    from entering_pushes_hit_material [OF assms(2) this] assms(1) show ?thesis
      by (simp add: sentinel_last_Cons)
  qed
qed

lemma spawns_sentinel:
  assumes "spawns ui ex rt_scene param next_param"
      and "sentinel_last (param_material_stack param)"
  shows "sentinel_last (param_material_stack next_param)"
  using assms
proof cases
  case (reflection i dir)
  with assms(2) show ?thesis by (simp add: reflection_next_param_def)
next
  case (refraction i ni nt mat_stack nr)
  from refraction(7) have "param_material_stack next_param = mat_stack"
    by (auto simp: refraction_next_param_def Let_def split: if_splits)
  with refraction_media_sentinel [OF assms(2) refraction(5)] show ?thesis by simp
qed

lemma path_sentinel:
  assumes "(spawns ui ex rt_scene)\<^sup>*\<^sup>* param q"
      and "sentinel_last (param_material_stack param)"
  shows "sentinel_last (param_material_stack q)"
  using assms by (induction rule: rtranclp_induct) (auto intro: spawns_sentinel)

lemma sentinel_no_range_fault:
  assumes "sentinel_last (param_material_stack param)"
  shows "(\<exists>b. IsLeavingObject param i = Inr b) \<and> (\<exists>m. refraction_media ex param i = Inr m)"
proof -
  from assms obtain m ms where st: "param_material_stack param = m # ms"
    by (cases "param_material_stack param") auto
  with assms have "m \<noteq> LocalAir \<Longrightarrow> ms \<noteq> []"
    by (auto simp: sentinel_last_Cons)
  then have "SceneMaterial (isect_material i) = m \<Longrightarrow> 1 < length (m # ms)"
    by (cases ms) auto
  with st show ?thesis
    by (auto simp: IsLeavingObject_def refraction_media_def front_def at_index_def Let_def)
qed

lemma enter_then_exit:
  assumes enter: "IsLeavingObject param i = Inr False"
      and media: "refraction_media ex param i = Inr (ni, nt, mat_stack)"
      and inside: "param_material_stack param' = mat_stack"
      and same: "isect_material i' = isect_material i"
  shows "IsLeavingObject param' i' = Inr True
       \<and> (\<exists>ni' nt'. refraction_media ex param' i' = Inr (ni', nt', param_material_stack param))"
proof -
  from entering_pushes_hit_material [OF media enter] inside
  have st: "param_material_stack param' = SceneMaterial (isect_material i) # param_material_stack param"
    and ne: "param_material_stack param \<noteq> []"
    by simp_all
  from ne have "1 < length (SceneMaterial (isect_material i) # param_material_stack param)"
    by (cases "param_material_stack param") auto
  with st same show ?thesis
    by (simp add: IsLeavingObject_def refraction_media_def front_def at_index_def Let_def)
qed


text \<open>
  C4. Along every chain of calls from the context that \<^verbatim>\<open>trace\<close> builds, the
  material stack is never empty and the air sentinel stays its last entry, the only
  one of its kind, so that neither the leaving test nor \<^verbatim>\<open>traceRefraction\<close>
  reads the deque out of range; what \<^verbatim>\<open>traceRefraction\<close> pops is the entry of the
  material that was hit; and after entering a material (push) the exit from that same
  material (pop) gives back exactly the stack before the entry.
\<close>

theorem material_stack_invariant:
  "((spawns ui ex rt_scene)\<^sup>*\<^sup>* (initial_param sc ry) q \<longrightarrow>
      param_material_stack q \<noteq> [] \<and> last (param_material_stack q) = LocalAir
      \<and> sentinel_last (param_material_stack q)
      \<and> (\<exists>b. IsLeavingObject q i = Inr b) \<and> (\<exists>m. refraction_media ex q i = Inr m))
   \<and> (IsLeavingObject param i = Inr True \<and> refraction_media ex param i = Inr (ni, nt, mat_stack) \<longrightarrow>
        param_material_stack param = SceneMaterial (isect_material i) # mat_stack)
   \<and> (IsLeavingObject param i = Inr False \<and> refraction_media ex param i = Inr (ni, nt, mat_stack)
        \<and> param_material_stack param' = mat_stack \<and> isect_material i' = isect_material i \<longrightarrow>
        mat_stack = SceneMaterial (isect_material i) # param_material_stack param
        \<and> IsLeavingObject param' i' = Inr True
        \<and> (\<exists>ni' nt'. refraction_media ex param' i' = Inr (ni', nt', param_material_stack param)))"
proof (intro conjI impI)
  assume "(spawns ui ex rt_scene)\<^sup>*\<^sup>* (initial_param sc ry) q"
  then have inv: "sentinel_last (param_material_stack q)"
    by (rule path_sentinel) (simp add: initial_param_def)
  then show "sentinel_last (param_material_stack q)" .
  from sentinel_last_shape [OF inv]
  show "param_material_stack q \<noteq> []" and "last (param_material_stack q) = LocalAir"
    by simp_all
  from sentinel_no_range_fault [OF inv, of i ex]
  show "\<exists>b. IsLeavingObject q i = Inr b" and "\<exists>m. refraction_media ex q i = Inr m"
    by blast+
next
  assume "IsLeavingObject param i = Inr True \<and> refraction_media ex param i = Inr (ni, nt, mat_stack)"
  then show "param_material_stack param = SceneMaterial (isect_material i) # mat_stack"
    using leaving_pops_hit_material by blast
next
  assume a: "IsLeavingObject param i = Inr False \<and> refraction_media ex param i = Inr (ni, nt, mat_stack)
        \<and> param_material_stack param' = mat_stack \<and> isect_material i' = isect_material i"
  then show "mat_stack = SceneMaterial (isect_material i) # param_material_stack param"
    using entering_pushes_hit_material by blast
  from a enter_then_exit [of param i ex ni nt mat_stack param' i']
  show "IsLeavingObject param' i' = Inr True"
    and "\<exists>ni' nt'. refraction_media ex param' i' = Inr (ni', nt', param_material_stack param)"
    by simp_all
qed

lemma glass_start_working:
  "working_isect (default_ui\<lparr>getDepth := 2\<rparr>) glass_start = Some (hit_at 1)"
  by (simp add: working_isect_def default_ui_def initial_param_def sphere_scene_def head_on_def
      hit_at_def IsLeavingObject_def front_def glass_start_def)

lemma glass_start_media:
  "refraction_media example_ext glass_start (hit_at 1) = Inr (1, 1.5, [SceneMaterial 1, LocalAir])"
  by (simp add: refraction_media_def glass_start_def initial_param_def IsLeavingObject_def
      front_def hit_at_def example_ext_def getMaterial_def deref_def glass_def)

lemma glass_start_next:
  "refraction_next_param example_ext (Some (sphere_scene 1)) glass_start (hit_at 1) (2 / 3)
     [SceneMaterial 1, LocalAir] = Some glass_inside"
  by (simp add: refraction_next_param_def glass_start_def glass_inside_def initial_param_def
      hit_at_def head_on_def example_ext_def getMaterial_def glass_def ray_at_def)

lemma glass_start_spawns:
  "spawns (default_ui\<lparr>getDepth := 2\<rparr>) example_ext (Some (sphere_scene 1)) glass_start glass_inside"
  by (rule spawns.refraction [OF glass_start_working _ _ _ glass_start_media _ glass_start_next])
     (simp_all add: default_ui_def example_ext_def getMaterial_def hit_at_def glass_def
        glass_start_def initial_param_def c_div_def)

theorem material_stack_invariant_witness:
  "(spawns (default_ui\<lparr>getDepth := 2\<rparr>) example_ext (Some (sphere_scene 1)))\<^sup>*\<^sup>*
       (initial_param (sphere_scene 1) head_on) glass_inside
   \<and> param_material_stack glass_inside = [SceneMaterial 1, LocalAir]
   \<and> last (param_material_stack glass_inside) = LocalAir
   \<and> IsLeavingObject glass_start (hit_at 1) = Inr False
   \<and> refraction_media example_ext glass_start (hit_at 1) = Inr (1, 1.5, [SceneMaterial 1, LocalAir])
   \<and> IsLeavingObject glass_inside (hit_at 1) = Inr True
   \<and> refraction_media example_ext glass_inside (hit_at 1) = Inr (1.5, 1, [LocalAir])
   \<and> param_material_stack glass_start = [LocalAir]"
proof -
  have path: "(spawns (default_ui\<lparr>getDepth := 2\<rparr>) example_ext (Some (sphere_scene 1)))\<^sup>*\<^sup>*
       (initial_param (sphere_scene 1) head_on) glass_inside"
    using glass_start_spawns by (simp add: glass_start_def r_into_rtranclp)
  have st: "param_material_stack glass_inside = [SceneMaterial 1, LocalAir]"
    by (simp add: glass_inside_def)
  have enter: "IsLeavingObject glass_start (hit_at 1) = Inr False"
    by (simp add: IsLeavingObject_def front_def glass_start_def initial_param_def)
  have out: "refraction_media example_ext glass_inside (hit_at 1) = Inr (1.5, 1, [LocalAir])"
    by (simp add: refraction_media_def glass_inside_def IsLeavingObject_def front_def at_index_def
        hit_at_def example_ext_def getMaterial_def deref_def glass_def)
  have st0: "param_material_stack glass_start = [LocalAir]"
    by (simp add: glass_start_def initial_param_def)
  note t = material_stack_invariant [of "default_ui\<lparr>getDepth := 2\<rparr>" example_ext
      "Some (sphere_scene 1)" "sphere_scene 1" head_on glass_inside "hit_at 1" glass_start
      1 "1.5" "[SceneMaterial 1, LocalAir]" glass_inside "hit_at 1"]
  from t path have l: "last (param_material_stack glass_inside) = LocalAir"
    by blast
  from t enter glass_start_media st have leave: "IsLeavingObject glass_inside (hit_at 1) = Inr True"
    by blast
  from path st l enter glass_start_media leave out st0 show ?thesis
    by blast
qed

subsection \<open>Total internal reflection in traceRefraction\<close>

text \<open>
  C7. When the discriminant \<open>1 - nr\<^sup>2 (1 - cos\<^sup>2)\<close> of \<^verbatim>\<open>traceRefraction\<close> is negative,
  no refracted context is made and the function returns the zero colour, leaving the
  generator state alone, whatever the recursive call would do: a return, not a fault.
  (\<open>nr\<close> is the quotient of the two indices, so the transmitted index is not zero.)
\<close>

theorem refraction_total_internal_reflection:
  assumes "refraction_media ex param i = Inr (ni, nt, mat_stack)"
      and "c_div ni nt = Inr nr"
      and "1 - nr * nr * (1 - dot (isect_N i) (vneg (getDirection (param_r param)))
                               * dot (isect_N i) (vneg (getDirection (param_r param)))) < 0"
  shows "refraction_next_param ex rt_scene param i nr mat_stack = None
       \<and> traceRefraction ui ex rt_scene rec param i g = Some (Inr (vzero, g))"
  using assms by (simp add: traceRefraction_def refraction_next_param_def Let_def)

theorem refraction_total_internal_reflection_witness:
  "refraction_media example_ext glancing_inside (hit_at 1) = Inr (1.5, 1, [LocalAir])
   \<and> c_div 1.5 1 = Inr 1.5
   \<and> 1 - 1.5 * 1.5 * (1 - dot (isect_N (hit_at 1)) (vneg (getDirection (param_r glancing_inside)))
                            * dot (isect_N (hit_at 1)) (vneg (getDirection (param_r glancing_inside)))) < (0::real)
   \<and> \<not> iszero_vec (kt (getMaterial example_ext (hit_at 1)))
   \<and> param_depth glancing_inside < getDepth (default_ui\<lparr>getDepth := 2\<rparr>)
   \<and> traceRefraction (default_ui\<lparr>getDepth := 2\<rparr>) example_ext (Some (sphere_scene 1))
        (\<lambda>p g. None) glancing_inside (hit_at 1) (0::nat) = Some (Inr (vzero, 0))"
proof -
  have m: "refraction_media example_ext glancing_inside (hit_at 1) = Inr (1.5, 1, [LocalAir])"
    by (simp add: refraction_media_def glancing_inside_def IsLeavingObject_def front_def at_index_def
        hit_at_def example_ext_def getMaterial_def deref_def glass_def)
  have d: "c_div 1.5 1 = Inr 1.5"
    by (simp add: c_div_def)
  have r: "1 - 1.5 * 1.5 * (1 - dot (isect_N (hit_at 1)) (vneg (getDirection (param_r glancing_inside)))
                            * dot (isect_N (hit_at 1)) (vneg (getDirection (param_r glancing_inside)))) < (0::real)"
    by (simp add: glancing_inside_def hit_at_def)
  have k: "\<not> iszero_vec (kt (getMaterial example_ext (hit_at 1)))"
    by (simp add: getMaterial_def example_ext_def hit_at_def glass_def)
  have l: "param_depth glancing_inside < getDepth (default_ui\<lparr>getDepth := 2\<rparr>)"
    by (simp add: glancing_inside_def)
  from m d r k l
    refraction_total_internal_reflection [OF m d r, of "Some (sphere_scene 1)"
      "default_ui\<lparr>getDepth := 2\<rparr>" "\<lambda>p g. None" 0]
  show ?thesis by simp
qed

subsection \<open>The Fresnel coefficient\<close>

lemma IsLeavingObject_front:
  "IsLeavingObject param i = Inr leaving \<Longrightarrow>
   \<exists>fr. front (param_material_stack param) = Inr fr \<and> leaving = (SceneMaterial (isect_material i) = fr)"
  by (auto simp: IsLeavingObject_def split: sum.splits)






subsection \<open>The Fresnel coefficient on the way out of an object\<close>

lemma leaving_coefficient:
  assumes "IsLeavingObject param i = Inr True"
      and "index (getMaterial ex i) \<noteq> 0"
  shows "GetFresnelCoeff ex param i
       = Inr ((1 - dot (isect_N i) (vneg (getDirection (param_r param)))) ^ 5)"
proof -
  from IsLeavingObject_front [OF assms(1)]
  have "front (param_material_stack param) = Inr (SceneMaterial (isect_material i))"
    by auto
  with assms show ?thesis
    by (simp add: GetFresnelCoeff_def c_div_def bind_f_def Let_def deref_def getMaterial_def)
qed

text \<open>A material gets onto the stack in \<^verbatim>\<open>traceRefraction\<close> only, which divides by its
  index before it traces on: along a chain of calls from the context of \<^verbatim>\<open>trace\<close> no
  scene material on the stack has index 0.\<close>

lemma refraction_media_entering_index:
  assumes "refraction_media ex param i = Inr (ni, nt, mat_stack)"
      and "IsLeavingObject param i = Inr False"
  shows "nt = index (getMaterial ex i)"
  using assms
  by (cases "param_material_stack param")
     (auto simp: refraction_media_def IsLeavingObject_def front_def Let_def
        split: sum.splits if_splits)

lemma spawns_stack_indices:
  assumes "spawns ui ex rt_scene param next_param"
      and "\<forall>k. SceneMaterial k \<in> set (param_material_stack param) \<longrightarrow> index (materials ex k) \<noteq> 0"
  shows "\<forall>k. SceneMaterial k \<in> set (param_material_stack next_param) \<longrightarrow> index (materials ex k) \<noteq> 0"
  using assms(1)
proof cases
  case (reflection i dir)
  with assms(2) show ?thesis by (simp add: reflection_next_param_def)
next
  case (refraction i ni nt mat_stack nr)
  from refraction(7) have st: "param_material_stack next_param = mat_stack"
    by (auto simp: refraction_next_param_def Let_def split: if_splits)
  from refraction(6) have nz: "nt \<noteq> 0"
    by (auto simp: c_div_def split: if_splits)
  obtain b where lv: "IsLeavingObject param i = Inr b"
    using refraction(5)
    by (cases "IsLeavingObject param i") (auto simp: refraction_media_def Let_def split: sum.splits)
  show ?thesis
  proof (cases b)
    case True
    with lv leaving_pops_hit_material [OF refraction(5)]
    have "param_material_stack param = SceneMaterial (isect_material i) # mat_stack"
      by simp
    with assms(2) st show ?thesis by simp
  next
    case False
    with lv entering_pushes_hit_material [OF refraction(5)]
      refraction_media_entering_index [OF refraction(5)]
    have "mat_stack = SceneMaterial (isect_material i) # param_material_stack param"
      and "nt = index (getMaterial ex i)"
      by simp_all
    with assms(2) st nz show ?thesis
      by (auto simp: getMaterial_def)
  qed
qed

lemma path_stack_indices:
  assumes "(spawns ui ex rt_scene)\<^sup>*\<^sup>* (initial_param sc ry) q"
  shows "\<forall>k. SceneMaterial k \<in> set (param_material_stack q) \<longrightarrow> index (materials ex k) \<noteq> 0"
  using assms
proof (induction rule: rtranclp_induct)
  case base
  show ?case by (simp add: initial_param_def)
next
  case (step y z)
  from spawns_stack_indices [OF step.hyps(2) step.IH] show ?case .
qed

text \<open>
  C10. In every context that a chain of calls from the context of \<^verbatim>\<open>trace\<close> reaches,
  when the ray leaves an object (the hit material is the stack front) both indices of
  \<^verbatim>\<open>GetFresnelCoeff\<close> are that material's, which is not zero, so \<open>r0 = 0\<close>, and the
  coefficient is exactly \<open>(1 - c)\<^sup>5\<close> for \<open>c = N \<cdot> (- direction)\<close>, whatever lies below
  the front of the stack: the medium the ray exits into plays no part.
\<close>

theorem leaving_coefficient_on_trace:
  assumes "(spawns ui ex rt_scene)\<^sup>*\<^sup>* (initial_param sc ry) q"
      and "IsLeavingObject q i = Inr True"
  shows "(\<forall>fr. front (param_material_stack q) = Inr fr \<longrightarrow>
            index (deref ex fr) = index (getMaterial ex i)
            \<and> ((index (getMaterial ex i) - index (deref ex fr))
                 / (index (getMaterial ex i) + index (deref ex fr)))\<^sup>2 = 0)
       \<and> index (getMaterial ex i) \<noteq> 0
       \<and> GetFresnelCoeff ex q i
           = Inr ((1 - dot (isect_N i) (vneg (getDirection (param_r q)))) ^ 5)
       \<and> (\<forall>below. GetFresnelCoeff ex
              (q\<lparr>param_material_stack := SceneMaterial (isect_material i) # below\<rparr>) i
           = Inr ((1 - dot (isect_N i) (vneg (getDirection (param_r q)))) ^ 5))"
proof -
  from IsLeavingObject_front [OF assms(2)]
  have fr: "front (param_material_stack q) = Inr (SceneMaterial (isect_material i))"
    by auto
  then have "SceneMaterial (isect_material i) \<in> set (param_material_stack q)"
    by (cases "param_material_stack q") (auto simp: front_def)
  with path_stack_indices [OF assms(1)] have nz: "index (getMaterial ex i) \<noteq> 0"
    by (simp add: getMaterial_def)
  have "IsLeavingObject (q\<lparr>param_material_stack := SceneMaterial (isect_material i) # below\<rparr>) i
      = Inr True" for below
    by (simp add: IsLeavingObject_def front_def)
  from leaving_coefficient [OF this nz] leaving_coefficient [OF assms(2) nz] fr nz
  show ?thesis
    by (simp add: deref_def getMaterial_def)
qed

theorem leaving_coefficient_on_trace_witness:
  "(spawns (default_ui\<lparr>getDepth := 2\<rparr>) example_ext (Some (sphere_scene 1)))\<^sup>*\<^sup>*
       (initial_param (sphere_scene 1) head_on) glass_inside
   \<and> IsLeavingObject glass_inside slanted_hit = Inr True
   \<and> front (param_material_stack glass_inside) = Inr (SceneMaterial 1)
   \<and> index (deref example_ext (SceneMaterial 1)) = index (getMaterial example_ext slanted_hit)
   \<and> index (getMaterial example_ext slanted_hit) = 3 / 2
   \<and> dot (isect_N slanted_hit) (vneg (getDirection (param_r glass_inside))) = 4 / 5
   \<and> GetFresnelCoeff example_ext glass_inside slanted_hit = Inr (1 / 3125)
   \<and> GetFresnelCoeff example_ext
        (glass_inside\<lparr>param_material_stack := [SceneMaterial 1, SceneMaterial 0, LocalAir]\<rparr>)
        slanted_hit = Inr (1 / 3125)"
proof -
  have path: "(spawns (default_ui\<lparr>getDepth := 2\<rparr>) example_ext (Some (sphere_scene 1)))\<^sup>*\<^sup>*
       (initial_param (sphere_scene 1) head_on) glass_inside"
    using glass_start_spawns by (simp add: glass_start_def r_into_rtranclp)
  have l: "IsLeavingObject glass_inside slanted_hit = Inr True"
    and f: "front (param_material_stack glass_inside) = Inr (SceneMaterial 1)"
    and m: "isect_material slanted_hit = 1"
    and ix: "index (getMaterial example_ext slanted_hit) = 3 / 2"
    and c: "dot (isect_N slanted_hit) (vneg (getDirection (param_r glass_inside))) = 4 / 5"
    by (simp_all add: IsLeavingObject_def front_def getMaterial_def example_defs slanted_hit_def)
  have p: "(1 - 4 / 5 :: real) ^ 5 = 1 / 3125"
    by (simp add: power_divide)
  from leaving_coefficient_on_trace [OF path l] f m ix c p path l
  show ?thesis by auto
qed

subsection \<open>The Fresnel blend in traceRay\<close>

lemma fresnel_blend_cases:
  assumes "front (param_material_stack param) = Inr fr"
  shows "fresnel_blend ui ex param i (reflection, refraction) =
     (if IsEnableFresnel ui \<and> (index (deref ex fr) \<noteq> 1 \<or> index (getMaterial ex i) \<noteq> 1)
      then (case GetFresnelCoeff ex param i of
              Inl f \<Rightarrow> Inl f
            | Inr coeff \<Rightarrow>
                Inr (vadd (vscale (GetFresnelRatio ui * coeff) reflection)
                          (vscale (1 - GetFresnelRatio ui) reflection),
                     vadd (vscale (GetFresnelRatio ui * (1 - coeff)) refraction)
                          (vscale (1 - GetFresnelRatio ui) refraction)))
      else Inr (reflection, refraction))"
  using assms by (simp add: fresnel_blend_def Let_def split: sum.splits)

lemma traceRay_hit_branches:
  assumes "shade ex (isect_material i) sc (param_r param) i g = (shade_c, g0)"
      and "(if IsEnableReflection ui then traceReflection ui ex rt_scene rec param i g0
            else Some (Inr (vzero, g0))) = Some (Inr (reflection, g1))"
      and "(if IsEnableRefraction ui then traceRefraction ui ex rt_scene rec param i g1
            else Some (Inr (vzero, g1))) = Some (Inr (refraction, g2))"
  shows "traceRay_hit ui ex rt_scene rec param sc i g =
     (case fresnel_blend ui ex param i (reflection, refraction) of
        Inl f \<Rightarrow> Some (Inl f)
      | Inr (reflection', refraction') \<Rightarrow>
          Some (Inr (vadd (vadd (prod_vec shade_c (param_thresh param)) reflection')
                       refraction', g2)))"
  unfolding traceRay_hit_def assms(1) prod.case Let_def assms(2) bind_tr_simps assms(3) ..

text \<open>
  C6. In an activation of \<^verbatim>\<open>traceRay\<close> that has its intersection, with \<open>reflection\<close>
  and \<open>refraction\<close> the colours of the two branches (traced in this order, after the
  shading) and \<open>intensity\<close> the shaded colour times the weight: if Fresnel is enabled and the index of the stack front or that of
  the hit material differs from 1, the result is \<open>intensity + reflection' + refraction'\<close> with
  \<open>reflection' = ratio \<cdot> coeff \<cdot> reflection + (1 - ratio) \<cdot> reflection\<close> and
  \<open>refraction' = ratio \<cdot> (1 - coeff) \<cdot> refraction + (1 - ratio) \<cdot> refraction\<close>, \<open>coeff\<close>
  from \<^verbatim>\<open>GetFresnelCoeff\<close>; if Fresnel is enabled and both indices are 1, or if
  Fresnel is disabled, the result is \<open>intensity + reflection + refraction\<close>.
\<close>

theorem traceRay_fresnel_blend:
  assumes "working_isect ui param = Some i"
      and "param_scene param = Some sc"
      and "front (param_material_stack param) = Inr fr"
      and "shade ex (isect_material i) sc (param_r param) i g = (shade_c, g0)"
      and "(if IsEnableReflection ui then traceReflection ui ex rt_scene rec param i g0
            else Some (Inr (vzero, g0))) = Some (Inr (reflection, g1))"
      and "(if IsEnableRefraction ui then traceRefraction ui ex rt_scene rec param i g1
            else Some (Inr (vzero, g1))) = Some (Inr (refraction, g2))"
      and "intensity = prod_vec shade_c (param_thresh param)"
      and "ratio = GetFresnelRatio ui"
  shows "(IsEnableFresnel ui \<and> (index (deref ex fr) \<noteq> 1 \<or> index (getMaterial ex i) \<noteq> 1)
            \<and> GetFresnelCoeff ex param i = Inr coeff \<longrightarrow>
          traceRay_step ui ex rt_scene rec param g
            = Some (Inr (vadd (vadd intensity
                                 (vadd (vscale (ratio * coeff) reflection)
                                       (vscale (1 - ratio) reflection)))
                              (vadd (vscale (ratio * (1 - coeff)) refraction)
                                    (vscale (1 - ratio) refraction)), g2)))
       \<and> (IsEnableFresnel ui \<and> index (deref ex fr) = 1 \<and> index (getMaterial ex i) = 1 \<longrightarrow>
          traceRay_step ui ex rt_scene rec param g
            = Some (Inr (vadd (vadd intensity reflection) refraction, g2)))
       \<and> (\<not> IsEnableFresnel ui \<longrightarrow>
          traceRay_step ui ex rt_scene rec param g
            = Some (Inr (vadd (vadd intensity reflection) refraction, g2)))"
proof -
  have "traceRay_step ui ex rt_scene rec param g = traceRay_hit ui ex rt_scene rec param sc i g"
    using assms(1,2) by (simp add: traceRay_step_working)
  also note traceRay_hit_branches [OF assms(4,5,6)]
  finally show ?thesis
    using assms(7,8) by (simp add: fresnel_blend_cases [OF assms(3)])
qed


theorem traceRay_fresnel_blend_witness:
  "working_isect fresnel_ui glass_start = Some (hit_at 1)
   \<and> IsEnableFresnel fresnel_ui \<and> index (getMaterial example_ext (hit_at 1)) \<noteq> 1
   \<and> GetFresnelCoeff example_ext glass_start (hit_at 1) = Inr (1 / 25)
   \<and> traceRay 2 fresnel_ui example_ext (Some (sphere_scene 1)) glass_start (0::nat)
       = Some (Inr (Vec3f (49 / 50) (49 / 50) (49 / 50), 0))
   \<and> working_isect fresnel_ui mirror_start = Some (hit_at 0)
   \<and> index (deref example_ext LocalAir) = 1 \<and> index (getMaterial example_ext (hit_at 0)) = 1
   \<and> traceRay 2 fresnel_ui example_ext (Some (sphere_scene 0)) mirror_start (0::nat)
       = Some (Inr (Vec3f 1 1 1, 0))
   \<and> \<not> IsEnableFresnel default_ui
   \<and> traceRay 2 default_ui example_ext (Some (sphere_scene 1)) glass_start (0::nat)
       = Some (Inr (Vec3f 1 1 1, 0))"
proof -
  let ?g = "Vec3f (1 / 2) (1 / 2) (1 / 2)"
  have w1: "working_isect fresnel_ui glass_start = Some (hit_at 1)"
    and w2: "working_isect fresnel_ui mirror_start = Some (hit_at 0)"
    and w3: "working_isect default_ui glass_start = Some (hit_at 1)"
    by (simp_all add: tracer_defs example_defs)
  have s1: "param_scene glass_start = Some (sphere_scene 1)"
    and s2: "param_scene mirror_start = Some (sphere_scene 0)"
    and f1: "front (param_material_stack glass_start) = Inr LocalAir"
    and f2: "front (param_material_stack mirror_start) = Inr LocalAir"
    by (simp_all add: front_def example_defs)
  have ix: "index (deref example_ext LocalAir) = 1" "index (getMaterial example_ext (hit_at 0)) = 1"
    "index (getMaterial example_ext (hit_at 1)) \<noteq> 1"
    by (simp_all add: deref_def getMaterial_def example_defs)
  have en: "IsEnableFresnel fresnel_ui" "\<not> IsEnableFresnel default_ui"
    "GetFresnelRatio fresnel_ui = 1"
    by (simp_all add: example_defs)
  have co: "GetFresnelCoeff example_ext glass_start (hit_at 1) = Inr (1 / 25)"
    by (simp add: tracer_defs example_defs)
  have sh: "shade example_ext (isect_material (hit_at k)) sc (param_r p) (hit_at k) 0 = (?g, 0)"
    for k sc p
    by (simp add: example_defs)
  have th: "param_thresh glass_start = Vec3f 1 1 1" "param_thresh mirror_start = Vec3f 1 1 1"
    by (simp_all add: example_defs)
  \<comment> \<open>the glass sphere, Fresnel on: no reflection, the refracted ray brings back the grey\<close>
  let ?rec1 = "traceRay 1 fresnel_ui example_ext (Some (sphere_scene 1))"
  have a1: "(if IsEnableReflection fresnel_ui
             then traceReflection fresnel_ui example_ext (Some (sphere_scene 1)) ?rec1 glass_start (hit_at 1) 0
             else Some (Inr (vzero, 0))) = Some (Inr (vzero, 0))"
    by (simp add: tracer_defs example_defs)
  have b1: "(if IsEnableRefraction fresnel_ui
             then traceRefraction fresnel_ui example_ext (Some (sphere_scene 1)) ?rec1 glass_start (hit_at 1) 0
             else Some (Inr (vzero, 0))) = Some (Inr (?g, 0))"
    by (simp add: tracer_defs example_defs)
  have r1: "traceRay 2 fresnel_ui example_ext (Some (sphere_scene 1)) glass_start 0
       = Some (Inr (Vec3f (49 / 50) (49 / 50) (49 / 50), 0))"
    using traceRay_fresnel_blend [OF w1 s1 f1 sh a1 b1 refl refl, of "1 / 25"] en ix co
    by (simp add: numeral_2_eq_2 th vzero_def)
  \<comment> \<open>the mirrored sphere, Fresnel on: both indices are 1\<close>
  let ?rec2 = "traceRay 1 fresnel_ui example_ext (Some (sphere_scene 0))"
  have a2: "(if IsEnableReflection fresnel_ui
             then traceReflection fresnel_ui example_ext (Some (sphere_scene 0)) ?rec2 mirror_start (hit_at 0) 0
             else Some (Inr (vzero, 0))) = Some (Inr (?g, 0))"
    by (simp add: tracer_defs example_defs)
  have b2: "(if IsEnableRefraction fresnel_ui
             then traceRefraction fresnel_ui example_ext (Some (sphere_scene 0)) ?rec2 mirror_start (hit_at 0) 0
             else Some (Inr (vzero, 0))) = Some (Inr (vzero, 0))"
    by (simp add: tracer_defs example_defs)
  have r2: "traceRay 2 fresnel_ui example_ext (Some (sphere_scene 0)) mirror_start 0
       = Some (Inr (Vec3f 1 1 1, 0))"
    using traceRay_fresnel_blend [OF w2 s2 f2 sh a2 b2 refl refl, of 0] en ix
    by (simp add: numeral_2_eq_2 th vzero_def)
  \<comment> \<open>the glass sphere, Fresnel off\<close>
  let ?rec3 = "traceRay 1 default_ui example_ext (Some (sphere_scene 1))"
  have a3: "(if IsEnableReflection default_ui
             then traceReflection default_ui example_ext (Some (sphere_scene 1)) ?rec3 glass_start (hit_at 1) 0
             else Some (Inr (vzero, 0))) = Some (Inr (vzero, 0))"
    by (simp add: tracer_defs example_defs)
  have b3: "(if IsEnableRefraction default_ui
             then traceRefraction default_ui example_ext (Some (sphere_scene 1)) ?rec3 glass_start (hit_at 1) 0
             else Some (Inr (vzero, 0))) = Some (Inr (?g, 0))"
    by (simp add: tracer_defs example_defs)
  have r3: "traceRay 2 default_ui example_ext (Some (sphere_scene 1)) glass_start 0
       = Some (Inr (Vec3f 1 1 1, 0))"
    using traceRay_fresnel_blend [OF w3 s1 f1 sh a3 b3 refl refl, of 0] en
    by (simp add: numeral_2_eq_2 th vzero_def)
  from w1 w2 en ix co r1 r2 r3 show ?thesis by simp
qed

subsection \<open>Mirror reflection and the glossy loop\<close>

lemma vadd_vscale_Suc:
  "vadd (vadd acc c) (vscale (real k) c) = vadd acc (vscale (real (Suc k)) c)"
  by (cases acc; cases c) (simp add: algebra_simps)

lemma vdiv_vscale:
  "d \<noteq> 0 \<Longrightarrow> vdiv (vadd vzero (vscale d c)) d = c"
  by (cases c) (simp add: vzero_def)

lemma glossy_loop_constant:
  assumes gen: "\<And>g. fst (Generate ex vcg g) = m_center vcg"
      and rec: "\<And>g. \<exists>g'. rec (next_param \<lparr>getPosition = out_point, getDirection = m_center vcg\<rparr>) g
                          = Some (Inr (c, g'))"
  shows "\<exists>g'. glossy_loop ex rec next_param vcg out_point k acc g
              = Some (Inr (vadd acc (vscale (real k) c), g'))"
proof (induction k arbitrary: acc g)
  case 0
  show ?case by (cases acc; cases c) simp
next
  case (Suc k)
  obtain dir g1 where draw: "Generate ex vcg g = (dir, g1)"
    by (cases "Generate ex vcg g")
  with gen [of g] have dir: "dir = m_center vcg" by simp
  from rec obtain g2
    where "rec (next_param \<lparr>getPosition = out_point, getDirection = m_center vcg\<rparr>) g1 = Some (Inr (c, g2))"
    by blast
  with draw dir Suc.IH [of "vadd acc c" g2] show ?case
    by (simp add: bind_tr_simps vadd_vscale_Suc del: of_nat_Suc)
qed

text \<open>
  C8. With a reflective material, a depth below the maximum and a glossy-sample count
  of 0, \<^verbatim>\<open>traceReflection\<close> returns what \<^verbatim>\<open>traceRay\<close> returns for one context: the
  tracer's scene, the ray from the hit point moved by \<^verbatim>\<open>RAY_EPSILON\<close> along the normal in
  the direction \<open>2 (N \<cdot> V) N - V\<close> normalized (\<open>V\<close> the reversed ray direction), the
  weight times \<open>kr\<close> channel by channel, the depth plus one and the same material
  stack. With \<open>n > 0\<close> samples, a cone generator that returns the mirror direction
  and a trace of that context that gives the colour \<open>c\<close> in every generator state,
  the glossy loop returns \<open>c\<close> as well: the mean of \<open>n\<close> traces of the same context.
\<close>

theorem mirror_reflection_sample_zero:
  assumes "\<not> iszero_vec (kr (getMaterial ex i))"
      and "param_depth param < getDepth ui"
      and "GetGlossyReflectionSample ui = 0"
  shows "traceReflection ui ex rt_scene rec param i g
       = rec \<lparr>param_scene = rt_scene,
               param_r = \<lparr>getPosition = vadd (ray_at (param_r param) (isect_t i))
                                              (vscale (RAY_EPSILON ex) (isect_N i)),
                          getDirection = normalize ex
                            (vsub (vscale (2 * dot (isect_N i) (vneg (getDirection (param_r param))))
                                     (isect_N i))
                                  (vneg (getDirection (param_r param))))\<rparr>,
               param_thresh = prod_vec (param_thresh param) (kr (getMaterial ex i)),
               param_depth = param_depth param + 1,
               param_material_stack = param_material_stack param\<rparr> g
       \<and> ((\<forall>vcg g'. fst (Generate ex vcg g') = m_center vcg)
            \<and> (\<forall>g'. \<exists>g''. rec (reflection_next_param rt_scene param (getMaterial ex i)
                                  \<lparr>getPosition = out_point_of ex param i,
                                   getDirection = center_dir_of ex param i\<rparr>) g' = Some (Inr (c, g'')))
            \<and> 0 < n \<longrightarrow>
          (\<exists>g'. traceReflection (ui\<lparr>GetGlossyReflectionSample := n\<rparr>) ex rt_scene rec param i g
                  = Some (Inr (c, g')))
          \<and> (\<exists>g'. traceReflection ui ex rt_scene rec param i g = Some (Inr (c, g'))))"
proof (intro conjI impI)
  show "traceReflection ui ex rt_scene rec param i g
       = rec \<lparr>param_scene = rt_scene,
               param_r = \<lparr>getPosition = vadd (ray_at (param_r param) (isect_t i))
                                              (vscale (RAY_EPSILON ex) (isect_N i)),
                          getDirection = normalize ex
                            (vsub (vscale (2 * dot (isect_N i) (vneg (getDirection (param_r param))))
                                     (isect_N i))
                                  (vneg (getDirection (param_r param))))\<rparr>,
               param_thresh = prod_vec (param_thresh param) (kr (getMaterial ex i)),
               param_depth = param_depth param + 1,
               param_material_stack = param_material_stack param\<rparr> g"
    using assms
    by (simp add: traceReflection_def reflection_next_param_def out_point_of_def center_dir_of_def
        Let_def)
next
  let ?np = "reflection_next_param rt_scene param (getMaterial ex i)"
  let ?vcg = "\<lparr>m_center = center_dir_of ex param i, m_x = 0.1\<rparr>"
  assume h: "(\<forall>vcg g'. fst (Generate ex vcg g') = m_center vcg)
            \<and> (\<forall>g'. \<exists>g''. rec (?np \<lparr>getPosition = out_point_of ex param i,
                                   getDirection = center_dir_of ex param i\<rparr>) g' = Some (Inr (c, g'')))
            \<and> 0 < n"
  then have pos: "0 < n" by simp
  from h have "\<exists>g'. glossy_loop ex rec ?np ?vcg (out_point_of ex param i) (nat n) vzero g
              = Some (Inr (vadd vzero (vscale (real (nat n)) c), g'))"
    by (intro glossy_loop_constant) simp_all
  then obtain g' where "glossy_loop ex rec ?np ?vcg (out_point_of ex param i) (nat n) vzero g
              = Some (Inr (vadd vzero (vscale (real_of_int n) c), g'))"
    using pos by auto
  with assms(1,2) pos
  show "\<exists>g'. traceReflection (ui\<lparr>GetGlossyReflectionSample := n\<rparr>) ex rt_scene rec param i g
                  = Some (Inr (c, g'))"
    by (simp add: traceReflection_def Let_def bind_tr_simps vdiv_vscale)
  from h assms show "\<exists>g'. traceReflection ui ex rt_scene rec param i g = Some (Inr (c, g'))"
    by (simp add: traceReflection_def Let_def)
qed


theorem mirror_reflection_sample_zero_witness:
  "\<not> iszero_vec (kr (getMaterial example_ext (hit_at 0)))
   \<and> param_depth mirror_start < getDepth default_ui
   \<and> GetGlossyReflectionSample default_ui = 0
   \<and> traceReflection default_ui example_ext (Some (sphere_scene 0))
        (traceRay 1 default_ui example_ext (Some (sphere_scene 0))) mirror_start (hit_at 0) (0::nat)
       = Some (Inr (Vec3f (1 / 2) (1 / 2) (1 / 2), 0))
   \<and> (\<forall>vcg g'. fst (Generate example_ext vcg g') = m_center vcg)
   \<and> (\<exists>g'. traceReflection (default_ui\<lparr>GetGlossyReflectionSample := 3\<rparr>) example_ext
               (Some (sphere_scene 0)) (traceRay 1 default_ui example_ext (Some (sphere_scene 0)))
               mirror_start (hit_at 0) (0::nat)
             = Some (Inr (Vec3f (1 / 2) (1 / 2) (1 / 2), g')))"
proof -
  let ?rec = "traceRay 1 default_ui example_ext (Some (sphere_scene 0))"
  let ?g = "Vec3f (1 / 2) (1 / 2) (1 / 2)"
  have k: "\<not> iszero_vec (kr (getMaterial example_ext (hit_at 0)))"
    and d: "param_depth mirror_start < getDepth default_ui"
    and z: "GetGlossyReflectionSample default_ui = 0"
    by (simp_all add: example_defs getMaterial_def)
  have gen: "\<forall>vcg g'. fst (Generate example_ext vcg g') = m_center vcg"
    by (simp add: example_defs)
  have run: "?rec (reflection_next_param (Some (sphere_scene 0)) mirror_start
                     (getMaterial example_ext (hit_at 0))
                     \<lparr>getPosition = out_point_of example_ext mirror_start (hit_at 0),
                      getDirection = center_dir_of example_ext mirror_start (hit_at 0)\<rparr>) g'
             = Some (Inr (?g, g'))" for g'
    by (simp add: tracer_defs example_defs)
  note t = mirror_reflection_sample_zero [OF k d z, of "Some (sphere_scene 0)" ?rec 0 ?g 3]
  from t run have a: "traceReflection default_ui example_ext (Some (sphere_scene 0)) ?rec
      mirror_start (hit_at 0) 0 = Some (Inr (?g, 0))"
    by (simp add: reflection_next_param_def out_point_of_def center_dir_of_def)
  from t gen run
  have b: "\<exists>g'. traceReflection (default_ui\<lparr>GetGlossyReflectionSample := 3\<rparr>) example_ext
               (Some (sphere_scene 0)) ?rec mirror_start (hit_at 0) 0 = Some (Inr (?g, g'))"
    by simp
  from k d z a gen b show ?thesis by simp
qed

end
